theory Spec2Isabelle
  imports Main "HOL-Library.Sublist"
begin

section \<open>Text\<close>

text \<open>
  A Python \<open>str\<close> is a sequence of Unicode code points: a code point is a natural
  number, a text a list of them. \<open>str\<close> reads an ASCII literal, so that
  \<open>str ''h2''\<close> is the text \<open>"h2"\<close>.
\<close>

type_synonym pystr = "nat list"

definition str :: "string \<Rightarrow> pystr" where
  "str s = map of_char s"

text \<open>
  \<open>c.isspace()\<close>, which decides what \<open>str.strip()\<close> removes: the 29 code points
  CPython 3.11 classifies as whitespace.
\<close>

definition isspace :: "nat \<Rightarrow> bool" where
  "isspace c \<longleftrightarrow>
     (9 \<le> c \<and> c \<le> 13) \<or> (28 \<le> c \<and> c \<le> 32) \<or> c = 133 \<or> c = 160 \<or> c = 5760 \<or>
     (8192 \<le> c \<and> c \<le> 8202) \<or> c = 8232 \<or> c = 8233 \<or> c = 8239 \<or> c = 8287 \<or> c = 12288"

definition strip :: "pystr \<Rightarrow> pystr" where
  "strip s = rev (dropWhile isspace (rev (dropWhile isspace s)))"

text \<open>
  \<open>str.lower()\<close>, code point by code point. ASCII capitals move to their small
  letters. Two code points outside ASCII have a lowercase form that contains an ASCII
  letter: U+0130 (to \<open>i\<close> followed by U+0307) and U+212A, the Kelvin sign (to \<open>k\<close>).
  Every other code point outside ASCII lowercases to code points outside ASCII; the
  model leaves those as they are, since the only caller, \<open>_slugify\<close>, deletes
  every code point outside ASCII in its next step.
\<close>

definition lower_cp :: "nat \<Rightarrow> pystr" where
  "lower_cp c =
     (if 65 \<le> c \<and> c \<le> 90 then [c + 32]
      else if c = 304 then [105, 775]
      else if c = 8490 then [107]
      else [c])"

definition lower :: "pystr \<Rightarrow> pystr" where
  "lower s = concat (map lower_cp s)"

subsection \<open>\<open>_slugify\<close>\<close>

text \<open>
  \<^verbatim>\<open>_nonword = re.compile(r"[^0-9A-Za-z _-]+")\<close> and
  \<^verbatim>\<open>_spaces = re.compile(r"[ _]+")\<close>: \<open>wordch\<close> is the complement of the first
  character class, \<open>spacech\<close> is the second one.
\<close>

definition wordch :: "nat \<Rightarrow> bool" where
  "wordch c \<longleftrightarrow>
     (48 \<le> c \<and> c \<le> 57) \<or> (65 \<le> c \<and> c \<le> 90) \<or> (97 \<le> c \<and> c \<le> 122) \<or>
     c = 32 \<or> c = 95 \<or> c = 45"

definition spacech :: "nat \<Rightarrow> bool" where
  "spacech c \<longleftrightarrow> c = 32 \<or> c = 95"

text \<open>
  \<open>pattern.sub(repl, t)\<close> for a pattern \<open>[class]+\<close>: scanning from the left, each
  maximal run of characters of the class is one match and is replaced by \<open>repl\<close>.
\<close>

function re_sub_runs :: "(nat \<Rightarrow> bool) \<Rightarrow> pystr \<Rightarrow> pystr \<Rightarrow> pystr" where
  "re_sub_runs cls repl [] = []"
| "re_sub_runs cls repl (c # cs) =
     (if cls c then repl @ re_sub_runs cls repl (dropWhile cls cs)
      else c # re_sub_runs cls repl cs)"
  by pat_completeness auto
termination
  by (relation "measure (\<lambda>(cls, repl, s). length s)")
     (auto simp: less_Suc_eq_le length_dropWhile_le)

definition slugify :: "pystr \<Rightarrow> pystr" where
  "slugify text =
     (let t = lower (strip text);
          t = re_sub_runs (\<lambda>c. \<not> wordch c) [] t;
          t = re_sub_runs spacech (str ''-'') t
      in t)"

text \<open>
  The slug as the specification words it: lowercase the text, keep only letters, digits,
  space, underscore and hyphen, and turn every run of spaces and underscores into one
  hyphen. \<open>collapse\<close> does the last step: a space or underscore becomes a hyphen
  unless the character before it was a space or underscore too.
\<close>

fun collapse :: "bool \<Rightarrow> pystr \<Rightarrow> pystr" where
  "collapse inrun [] = []"
| "collapse inrun (c # cs) =
     (if spacech c then (if inrun then collapse True cs else 45 # collapse True cs)
      else c # collapse False cs)"

definition slug_as_worded :: "pystr \<Rightarrow> pystr" where
  "slug_as_worded text = collapse False (filter wordch (lower text))"

text \<open>ASCII punctuation, Python's \<open>string.punctuation\<close>.\<close>

definition punctuation :: "nat \<Rightarrow> bool" where
  "punctuation c \<longleftrightarrow>
     (33 \<le> c \<and> c \<le> 47) \<or> (58 \<le> c \<and> c \<le> 64) \<or> (91 \<le> c \<and> c \<le> 96) \<or> (123 \<le> c \<and> c \<le> 126)"

section \<open>Parsed documents\<close>

text \<open>
  The code reads and rewrites HTML through the Beautiful Soup library. A parsed document
  is a list of nodes. A string node of the page text is \<open>Text\<close>; \<open>Opaque\<close> is a
  string node that is no page text and is written out as it stands (a comment with its
  delimiters, the contents of \<open>script\<close> and \<open>style\<close>). An element has a tag name
  (lowercase, as the \<open>html.parser\<close> builder produces it), its attributes in document
  order and its children. An attribute value is a text, or a list of texts for the
  multi-valued attribute \<open>class\<close>.
\<close>

datatype attrval = AStr pystr | AList "pystr list"

datatype node = Text pystr | Opaque pystr | Element pystr "(pystr \<times> attrval) list" "node list"

text \<open>
  What the code takes from its libraries and its run-time environment without fixing
  it: \<open>html_parser markup\<close> is the content of \<open>BeautifulSoup(markup, "html.parser")\<close>;
  \<open>decimal c\<close> says whether a code point outside ASCII is a decimal digit (such a
  code point matches \<open>\d\<close>); \<open>kinds_order\<close> is the order in which iterating the
  Python set \<open>kinds\<close> of \<open>_admonitions_to_material\<close> yields its five members (it
  depends on the hash seed of the process).
\<close>

record library =
  html_parser :: "pystr \<Rightarrow> node list"
  decimal :: "nat \<Rightarrow> bool"
  kinds_order :: "pystr list"

fun truthy :: "attrval \<Rightarrow> bool" where
  "truthy (AStr s) = (s \<noteq> [])"
| "truthy (AList l) = (l \<noteq> [])"

fun tag_of :: "node \<Rightarrow> pystr" where
  "tag_of (Element t a cs) = t"
| "tag_of _ = []"

fun attrs_of :: "node \<Rightarrow> (pystr \<times> attrval) list" where
  "attrs_of (Element t a cs) = a"
| "attrs_of _ = []"

fun contents :: "node \<Rightarrow> node list" where
  "contents (Element t a cs) = cs"
| "contents _ = []"

text \<open>\<open>tag.get(key)\<close>: the attribute's value, or \<open>None\<close>.\<close>

definition get_attr :: "node \<Rightarrow> pystr \<Rightarrow> attrval option" where
  "get_attr n key = map_of (attrs_of n) key"

text \<open>\<open>tag[key] = value\<close>: an attribute that is there keeps its place, a new one goes last.\<close>

fun set_item :: "(pystr \<times> attrval) list \<Rightarrow> pystr \<Rightarrow> attrval \<Rightarrow> (pystr \<times> attrval) list" where
  "set_item [] key v = [(key, v)]"
| "set_item ((k, w) # a) key v = (if k = key then (k, v) # a else (k, w) # set_item a key v)"

text \<open>
  \<open>needle in haystack\<close> for two texts: the needle occurs as a contiguous piece.
\<close>

fun contains :: "pystr \<Rightarrow> pystr \<Rightarrow> bool" where
  "contains [] needle = (needle = [])"
| "contains (c # cs) needle = (prefix needle (c # cs) \<or> contains cs needle)"

text \<open>
  The descendants of a node that are elements, in document order; \<open>elements\<close> is
  \<open>tag.find_all(True)\<close> together with the tag itself.
\<close>

fun elements :: "node \<Rightarrow> node list" where
  "elements (Element t a cs) = Element t a cs # concat (map elements cs)"
| "elements _ = []"

definition descendants :: "node list \<Rightarrow> node list" where
  "descendants ns = concat (map elements ns)"

text \<open>\<open>find_all(names)\<close> and \<open>find(name)\<close> with a filter on the element.\<close>

definition find_all :: "(node \<Rightarrow> bool) \<Rightarrow> node list \<Rightarrow> node list" where
  "find_all p ns = filter p (descendants ns)"

definition find_first :: "(node \<Rightarrow> bool) \<Rightarrow> node list \<Rightarrow> node option" where
  "find_first p ns = (case find_all p ns of [] \<Rightarrow> None | n # _ \<Rightarrow> Some n)"

text \<open>
  \<open>tag.get_text(" ", strip=True)\<close>: the page-text strings below the tag in document
  order, each stripped, the empty ones left out, joined by one space.
\<close>

fun strings :: "node \<Rightarrow> pystr list" where
  "strings (Text s) = [s]"
| "strings (Opaque s) = []"
| "strings (Element t a cs) = concat (map strings cs)"

fun join :: "pystr \<Rightarrow> pystr list \<Rightarrow> pystr" where
  "join sep [] = []"
| "join sep [s] = s"
| "join sep (s # t # ss) = s @ sep @ join sep (t # ss)"

definition get_text :: "node \<Rightarrow> pystr" where
  "get_text n = join (str '' '') (filter (\<lambda>s. s \<noteq> []) (map strip (strings n)))"

subsection \<open>Writing a document out\<close>

text \<open>
  \<open>_escape\<close> of the plugin: three replacements, one after the other.
\<close>

definition replace :: "nat \<Rightarrow> pystr \<Rightarrow> pystr \<Rightarrow> pystr" where
  "replace c r s = concat (map (\<lambda>x. if x = c then r else [x]) s)"

definition escape :: "pystr \<Rightarrow> pystr" where
  "escape s = replace 62 (str ''&gt;'') (replace 60 (str ''&lt;'') (replace 38 (str ''&amp;'') s))"

text \<open>
  \<open>str(soup)\<close> and \<open>tag.decode_contents()\<close> with the library's default (minimal)
  formatter: in page text and in attribute values \<open>&\<close>, \<open><\<close> and \<open>>\<close> are written as
  entities, in one pass; a list value is joined by spaces; a value is quoted with double
  quotes, unless it contains one (then with single quotes, or with \<open>&quot;\<close> when it
  contains both kinds). The attributes of a tag are written sorted by name. An element
  of a void tag without children is written \<open><br/>\<close>.
\<close>

definition entity_sub :: "pystr \<Rightarrow> pystr" where
  "entity_sub s = concat (map (\<lambda>x. if x = 38 then str ''&amp;'' else if x = 60 then str ''&lt;''
                                   else if x = 62 then str ''&gt;'' else [x]) s)"

definition void_tags :: "pystr list" where
  "void_tags = map str [''area'', ''base'', ''br'', ''col'', ''embed'', ''hr'', ''img'', ''input'',
     ''keygen'', ''link'', ''menuitem'', ''meta'', ''param'', ''source'', ''track'', ''wbr'',
     ''basefont'', ''bgsound'', ''command'', ''frame'', ''image'', ''isindex'', ''nextid'', ''spacer'']"

fun attr_text :: "attrval \<Rightarrow> pystr" where
  "attr_text (AStr s) = s"
| "attr_text (AList l) = join (str '' '') l"

definition quoted_attribute_value :: "pystr \<Rightarrow> pystr" where
  "quoted_attribute_value v =
     (if 34 \<in> set v then
        (if 39 \<in> set v then [34] @ replace 34 (str ''&quot;'') v @ [34] else [39] @ v @ [39])
      else [34] @ v @ [34])"

text \<open>
  \<open>sorted(tag.attrs.items())\<close>: the attributes in the order of their names, texts
  compared code point by code point (a tag holds a name once).
\<close>

fun text_less :: "pystr \<Rightarrow> pystr \<Rightarrow> bool" where
  "text_less [] [] = False"
| "text_less [] (y # ys) = True"
| "text_less (x # xs) [] = False"
| "text_less (x # xs) (y # ys) = (x < y \<or> (x = y \<and> text_less xs ys))"

fun insert_attr :: "pystr \<times> attrval \<Rightarrow> (pystr \<times> attrval) list \<Rightarrow> (pystr \<times> attrval) list" where
  "insert_attr kv [] = [kv]"
| "insert_attr kv (kw # a) =
     (if text_less (fst kw) (fst kv) then kw # insert_attr kv a else kv # kw # a)"

definition sorted_attrs :: "(pystr \<times> attrval) list \<Rightarrow> (pystr \<times> attrval) list" where
  "sorted_attrs a = foldr insert_attr a []"

definition decode_attrs :: "(pystr \<times> attrval) list \<Rightarrow> pystr" where
  "decode_attrs a =
     concat (map (\<lambda>(k, v). str '' '' @ k @ str ''='' @ quoted_attribute_value (entity_sub (attr_text v)))
               (sorted_attrs a))"

fun decode :: "node \<Rightarrow> pystr" where
  "decode (Text s) = entity_sub s"
| "decode (Opaque s) = s"
| "decode (Element t a cs) =
     (if cs = [] \<and> t \<in> set void_tags then str ''<'' @ t @ decode_attrs a @ str ''/>''
      else str ''<'' @ t @ decode_attrs a @ str ''>'' @ concat (map decode cs) @ str ''</'' @ t @ str ''>'')"

definition decode_contents :: "node list \<Rightarrow> pystr" where
  "decode_contents ns = concat (map decode ns)"

subsection \<open>Reading markup\<close>

text \<open>
  The examples below need \<open>BeautifulSoup(markup, "html.parser")\<close> at concrete texts;
  the general definitions and theorems take the parser from the \<open>library\<close> instead.
  \<open>fragment_parser\<close> reads markup the way the library does with Python's
  \<open>html.parser\<close>, within these bounds: the markup consists of text, start tags and end
  tags (no comment, declaration or processing instruction, no \<open>script\<close> or \<open>style\<close>
  content, no \<open><\<close> that starts no tag and no \<open>>\<close> inside a tag); names are ASCII;
  a quoted attribute value has its closing quote; the only character references are
  \<open>&lt;\<close>, \<open>&gt;\<close>, \<open>&amp;\<close> and \<open>&quot;\<close>, which are all that \<open>decode\<close> writes
  (the library knows the other references of HTML as well); of the multi-valued
  attributes only \<open>class\<close> occurs.

  Within them: names of tags and attributes are made lowercase; an attribute value stands
  in double quotes, in single quotes or bare, or is missing (then it is the empty
  text), and the references in it are resolved; of an attribute that a tag has twice
  the last value counts, in the first one's place; a \<open>class\<close> value is split at
  whitespace. A tag that ends in \<open>/>\<close> is closed at once, as is every void element.
  An end tag closes the open elements up to the last one of its name and is dropped
  when there is none; the end of the markup closes every open element. A run of text
  between two tags is one string, and a string that consists of the ASCII spacing
  characters only becomes a single newline, if it holds one, or else a single space,
  unless a \<open>pre\<close> or a \<open>textarea\<close> is open around it.
\<close>

datatype token = TData pystr | TStart pystr "(pystr \<times> attrval) list" | TEnd pystr

function unescape :: "pystr \<Rightarrow> pystr" where
  "unescape [] = []"
| "unescape (c # cs) =
     (if c = 38 \<and> take 3 cs = str ''lt;'' then 60 # unescape (drop 3 cs)
      else if c = 38 \<and> take 3 cs = str ''gt;'' then 62 # unescape (drop 3 cs)
      else if c = 38 \<and> take 4 cs = str ''amp;'' then 38 # unescape (drop 4 cs)
      else if c = 38 \<and> take 5 cs = str ''quot;'' then 34 # unescape (drop 5 cs)
      else c # unescape cs)"
  by pat_completeness auto
termination
  by (relation "measure length") auto

function split_ws :: "pystr \<Rightarrow> pystr list" where
  "split_ws [] = []"
| "split_ws (c # cs) =
     (if isspace c then split_ws cs
      else (c # takeWhile (\<lambda>x. \<not> isspace x) cs) # split_ws (dropWhile (\<lambda>x. \<not> isspace x) cs))"
  by pat_completeness auto
termination
  by (relation "measure length") (auto simp: less_Suc_eq_le length_dropWhile_le)

definition ascii_lower :: "pystr \<Rightarrow> pystr" where
  "ascii_lower s = map (\<lambda>c. if 65 \<le> c \<and> c \<le> 90 then c + 32 else c) s"

definition attr_value :: "pystr \<Rightarrow> pystr \<Rightarrow> attrval" where
  "attr_value key v = (if key = str ''class'' then AList (split_ws v) else AStr v)"

text \<open>
  The attributes of a start tag, from the text after the tag's name: each is a name, and
  after \<open>=\<close> a value. \<open>after_name\<close>, \<open>after_equals\<close>, \<open>after_quoted\<close> and
  \<open>after_bare\<close> are what is left of the text after a name, after the equals signs,
  after a quoted value and after a bare one. The second component of \<open>scan_attrs\<close> says
  that the tag ends in a slash.
\<close>

definition keych :: "nat \<Rightarrow> bool" where
  "keych c \<longleftrightarrow> \<not> isspace c \<and> c \<noteq> 47 \<and> c \<noteq> 61"

definition after_name :: "pystr \<Rightarrow> pystr" where
  "after_name cs = dropWhile isspace (dropWhile keych cs)"

definition after_equals :: "pystr \<Rightarrow> pystr" where
  "after_equals r = dropWhile isspace (dropWhile (\<lambda>x. x = 61) r)"

definition quoted :: "pystr \<Rightarrow> bool" where
  "quoted v \<longleftrightarrow> take 1 v = [34] \<or> take 1 v = [39]"

definition quoted_value :: "pystr \<Rightarrow> pystr" where
  "quoted_value v = takeWhile (\<lambda>x. x \<noteq> hd v) (tl v)"

definition after_quoted :: "pystr \<Rightarrow> pystr" where
  "after_quoted v = drop 1 (dropWhile (\<lambda>x. x \<noteq> hd v) (tl v))"

definition bare_value :: "pystr \<Rightarrow> pystr" where
  "bare_value v = takeWhile (\<lambda>x. \<not> isspace x) v"

definition after_bare :: "pystr \<Rightarrow> pystr" where
  "after_bare v = dropWhile (\<lambda>x. \<not> isspace x) v"

lemma length_after_name: "length (after_name cs) \<le> length cs"
proof -
  have "length (after_name cs) \<le> length (dropWhile keych cs)"
    unfolding after_name_def by (rule length_dropWhile_le)
  also have "\<dots> \<le> length cs" by (rule length_dropWhile_le)
  finally show ?thesis .
qed

lemma length_after_equals: "length (after_equals r) \<le> length r"
proof -
  have "length (after_equals r) \<le> length (dropWhile (\<lambda>x. x = 61) r)"
    unfolding after_equals_def by (rule length_dropWhile_le)
  also have "\<dots> \<le> length r" by (rule length_dropWhile_le)
  finally show ?thesis .
qed

lemma length_after_quoted: "length (after_quoted v) \<le> length v"
proof -
  have "length (after_quoted v) \<le> length (dropWhile (\<lambda>x. x \<noteq> hd v) (tl v))"
    unfolding after_quoted_def by simp
  also have "\<dots> \<le> length (tl v)" by (rule length_dropWhile_le)
  also have "\<dots> \<le> length v" by simp
  finally show ?thesis .
qed

lemma length_after_bare: "length (after_bare v) \<le> length v"
  unfolding after_bare_def by (rule length_dropWhile_le)

lemma length_after_quoted_value:
  "length (after_quoted (after_equals (after_name cs))) \<le> length cs"
  using length_after_quoted [of "after_equals (after_name cs)"]
    length_after_equals [of "after_name cs"] length_after_name [of cs] by linarith

lemma length_after_bare_value:
  "length (after_bare (after_equals (after_name cs))) \<le> length cs"
  using length_after_bare [of "after_equals (after_name cs)"]
    length_after_equals [of "after_name cs"] length_after_name [of cs] by linarith

function scan_attrs :: "pystr \<Rightarrow> (pystr \<times> pystr) list \<times> bool" where
  "scan_attrs [] = ([], False)"
| "scan_attrs (c # cs) =
     (if c = 47 \<and> cs = [] then ([], True)
      else if isspace c \<or> c = 47 then scan_attrs cs
      else if take 1 (after_name cs) = [61] then
        (if quoted (after_equals (after_name cs)) then
           (case scan_attrs (after_quoted (after_equals (after_name cs))) of
              (a, slash) \<Rightarrow>
                ((c # takeWhile keych cs, quoted_value (after_equals (after_name cs))) # a, slash))
         else
           (case scan_attrs (after_bare (after_equals (after_name cs))) of
              (a, slash) \<Rightarrow>
                ((c # takeWhile keych cs, bare_value (after_equals (after_name cs))) # a, slash)))
      else
        (case scan_attrs (dropWhile keych cs) of
           (a, slash) \<Rightarrow> ((c # takeWhile keych cs, []) # a, slash)))"
  by pat_completeness auto
termination
  by (relation "measure length")
     (auto simp: less_Suc_eq_le length_dropWhile_le length_after_quoted_value length_after_bare_value)

definition build_attrs :: "(pystr \<times> pystr) list \<Rightarrow> (pystr \<times> attrval) list" where
  "build_attrs a =
     foldl (\<lambda>d (k, v). set_item d (ascii_lower k) (attr_value (ascii_lower k) (unescape v))) [] a"

definition tagch :: "nat \<Rightarrow> bool" where
  "tagch c \<longleftrightarrow> c \<noteq> 9 \<and> c \<noteq> 10 \<and> c \<noteq> 13 \<and> c \<noteq> 12 \<and> c \<noteq> 32 \<and> c \<noteq> 47 \<and> c \<noteq> 0"

definition start_tokens :: "pystr \<Rightarrow> (pystr \<times> pystr) list \<times> bool \<Rightarrow> token list" where
  "start_tokens t a =
     (if snd a \<and> t \<notin> set void_tags then [TStart t (build_attrs (fst a)), TEnd t]
      else [TStart t (build_attrs (fst a))])"

definition tag_tokens :: "pystr \<Rightarrow> token list" where
  "tag_tokens inner =
     (if take 1 inner = [47] then [TEnd (ascii_lower (takeWhile tagch (dropWhile isspace (drop 1 inner))))]
      else start_tokens (ascii_lower (takeWhile tagch inner)) (scan_attrs (dropWhile tagch inner)))"

lemma length_drop_dropWhile: "length (drop n (dropWhile P xs)) \<le> length xs"
  using length_dropWhile_le [of P xs] by simp

function lex :: "pystr \<Rightarrow> token list" where
  "lex [] = []"
| "lex (c # cs) =
     (if c = 60 then tag_tokens (takeWhile (\<lambda>x. x \<noteq> 62) cs) @ lex (drop 1 (dropWhile (\<lambda>x. x \<noteq> 62) cs))
      else TData (unescape (c # takeWhile (\<lambda>x. x \<noteq> 60) cs)) # lex (dropWhile (\<lambda>x. x \<noteq> 60) cs))"
  by pat_completeness auto
termination
  by (relation "measure length")
     (auto simp: less_Suc_eq_le length_dropWhile_le length_drop_dropWhile simp del: length_drop)

text \<open>
  The open elements, innermost first, each with its children so far in reverse; the
  last frame stands for the document itself.
\<close>

type_synonym frame = "pystr \<times> (pystr \<times> attrval) list \<times> node list"

fun add_node :: "node \<Rightarrow> frame list \<Rightarrow> frame list" where
  "add_node n [] = []"
| "add_node n ((t, a, k) # fs) = (t, a, n # k) # fs"

fun close_one :: "frame list \<Rightarrow> frame list" where
  "close_one ((t, a, k) # f # fs) = add_node (Element t a (rev k)) (f # fs)"
| "close_one fs = fs"

lemma length_close_one: "length (close_one fs) \<le> length fs"
  by (induction fs rule: close_one.induct) (auto split: prod.splits)

lemma length_close_one_less: "length (close_one (f # g # fs)) < Suc (Suc (length fs))"
  by (cases f; cases g) auto

function close_all :: "frame list \<Rightarrow> frame list" where
  "close_all (f # g # fs) = close_all (close_one (f # g # fs))"
| "close_all [f] = [f]"
| "close_all [] = []"
  by pat_completeness auto
termination
  by (relation "measure length") (auto simp del: close_one.simps simp: length_close_one_less)

function close_to :: "pystr \<Rightarrow> frame list \<Rightarrow> frame list" where
  "close_to name (f # g # fs) =
     (if fst f = name then close_one (f # g # fs) else close_to name (close_one (f # g # fs)))"
| "close_to name [f] = [f]"
| "close_to name [] = []"
  by pat_completeness auto
termination
  by (relation "measure (\<lambda>(name, fs). length fs)")
     (auto simp del: close_one.simps simp: length_close_one_less)

text \<open>
  The string a run of text becomes, by the open elements: \<^verbatim>\<open>ASCII_SPACES\<close> are the
  space, the newline, the tab, the form feed and the carriage return.
\<close>

definition ascii_space :: "nat \<Rightarrow> bool" where
  "ascii_space c \<longleftrightarrow> c = 32 \<or> c = 10 \<or> c = 9 \<or> c = 12 \<or> c = 13"

definition preserves_space :: "frame list \<Rightarrow> bool" where
  "preserves_space fs \<longleftrightarrow> list_ex (\<lambda>f. fst f = str ''pre'' \<or> fst f = str ''textarea'') fs"

definition data_string :: "frame list \<Rightarrow> pystr \<Rightarrow> pystr" where
  "data_string fs d =
     (if \<not> preserves_space fs \<and> list_all ascii_space d
      then (if 10 \<in> set d then [10] else [32])
      else d)"

fun tree_step :: "frame list \<Rightarrow> token \<Rightarrow> frame list" where
  "tree_step fs (TData d) = add_node (Text (data_string fs d)) fs"
| "tree_step fs (TStart t a) =
     (if t \<in> set void_tags then add_node (Element t a []) fs else (t, a, []) # fs)"
| "tree_step fs (TEnd t) = (if t \<in> set (map fst (butlast fs)) then close_to t fs else fs)"

definition fragment_parser :: "pystr \<Rightarrow> node list" where
  "fragment_parser markup =
     (case close_all (foldl tree_step [([], [], [])] (lex markup)) of
        [] \<Rightarrow> []
      | (t, a, k) # fs \<Rightarrow> rev k)"

text \<open>
  The library of the examples: the fragment parser, no decimal digits outside ASCII (the
  examples hold none), and the members of \<open>kinds\<close> in the order the code lists them.
\<close>

definition kinds :: "pystr list" where
  "kinds = map str [''note'', ''tip'', ''important'', ''caution'', ''warning'']"

definition example_library :: library where
  "example_library = \<lparr>html_parser = fragment_parser, decimal = (\<lambda>c. False), kinds_order = kinds\<rparr>"

section \<open>The table of contents\<close>

text \<open>
  \<open>AnchorLink\<close> objects are mutable and shared: the loop of \<open>_build_toc\<close> appends a
  new link to the \<open>children\<close> list of a link that an earlier round put into \<open>items\<close>
  or into another link's list. The model keeps the links in a store, a list in which a
  link's address is its position, and lists of links are lists of addresses. (The third
  argument the code passes to the constructor is the link's \<open>level\<close> in MkDocs 1.6;
  the constructor itself starts every link with an empty \<open>children\<close> list.)
\<close>

record anchor_link =
  title :: pystr
  anchor_id :: attrval
  children :: "nat list"

record toc =
  links :: "anchor_link list"
  items :: "nat list"

record toc_loop =
  store :: "anchor_link list"
  roots :: "nat list"
  stack :: "(nat \<times> nat) list"

text \<open>The six heading tags, and \<open>int(h.name[1])\<close> for one of them.\<close>

definition heading_tags :: "pystr list" where
  "heading_tags = map str [''h1'', ''h2'', ''h3'', ''h4'', ''h5'', ''h6'']"

definition level_of :: "node \<Rightarrow> nat" where
  "level_of h = tag_of h ! 1 - 48"

text \<open>\<open>needle in (h.get("class") or [])\<close>.\<close>

definition in_class_or_empty :: "pystr \<Rightarrow> node \<Rightarrow> bool" where
  "in_class_or_empty needle h =
     (case get_attr h (str ''class'') of
        None \<Rightarrow> False
      | Some (AList l) \<Rightarrow> needle \<in> set l
      | Some (AStr s) \<Rightarrow> s \<noteq> [] \<and> contains s needle)"

definition toc_headings :: "node list \<Rightarrow> node list" where
  "toc_headings soup =
     filter (\<lambda>h. \<not> (tag_of h = str ''h1'' \<and> in_class_or_empty (str ''sect0'') h))
       (find_all (\<lambda>n. tag_of n \<in> set heading_tags) soup)"

text \<open>
  The first loop gives every heading without a (non-empty) \<open>id\<close> a slug of its text;
  \<open>heading_id\<close> is the value of \<open>h["id"]\<close> after it. The assignment changes no text,
  so it does not reach the \<open>get_text\<close> of a heading around this one.
\<close>

definition heading_id :: "node \<Rightarrow> attrval" where
  "heading_id h =
     (case get_attr h (str ''id'') of
        Some v \<Rightarrow> if truthy v then v else AStr (slugify (get_text h))
      | None \<Rightarrow> AStr (slugify (get_text h)))"

text \<open>
  One round of the second loop. The stack is kept with its top first: \<open>stack[-1]\<close> is
  the head of the list, and the \<open>while\<close> loop that pops is \<open>dropWhile\<close>.
\<close>

definition append_child :: "anchor_link list \<Rightarrow> nat \<Rightarrow> nat \<Rightarrow> anchor_link list" where
  "append_child st parent node =
     st[parent := (st ! parent)\<lparr>children := children (st ! parent) @ [node]\<rparr>]"

definition toc_round :: "toc_loop \<Rightarrow> node \<Rightarrow> toc_loop" where
  "toc_round s h =
     (let level = level_of h;
          node = length (store s);
          st = store s @ [\<lparr>title = get_text h, anchor_id = heading_id h, children = []\<rparr>];
          stk = dropWhile (\<lambda>(l, a). l \<ge> level) (stack s)
      in case stk of
           [] \<Rightarrow> \<lparr>store = st, roots = roots s @ [node], stack = [(level, node)]\<rparr>
         | (l, parent) # rest \<Rightarrow>
             \<lparr>store = append_child st parent node, roots = roots s, stack = (level, node) # stk\<rparr>)"

definition build_toc_soup :: "node list \<Rightarrow> toc" where
  "build_toc_soup soup =
     (let s = foldl toc_round \<lparr>store = [], roots = [], stack = []\<rparr> (toc_headings soup)
      in \<lparr>links = store s, items = roots s\<rparr>)"

definition build_toc :: "library \<Rightarrow> pystr \<Rightarrow> toc" where
  "build_toc L html = build_toc_soup (html_parser L html)"

text \<open>
  The table of contents as a forest, read off the store. A link reached after more
  steps than there are links lies on a cycle; then there is no forest.
\<close>

datatype outline = AnchorLink pystr attrval "outline list"

fun reify :: "anchor_link list \<Rightarrow> nat \<Rightarrow> nat \<Rightarrow> outline option" where
  "reify st 0 a = None"
| "reify st (Suc n) a =
     (if a < length st
      then map_option (AnchorLink (title (st ! a)) (anchor_id (st ! a)))
             (those (map (reify st n) (children (st ! a))))
      else None)"

definition forest :: "toc \<Rightarrow> outline list option" where
  "forest t = those (map (reify (links t) (length (links t))) (items t))"

section \<open>Page metadata\<close>

text \<open>
  \<open>soup.find(name, class_=c)\<close> and \<open>soup.find(name, attrs={key: v})\<close> compare a text
  value as a whole; of a list value, one member or the members joined by spaces has to
  be equal.
\<close>

fun value_matches :: "pystr \<Rightarrow> attrval \<Rightarrow> bool" where
  "value_matches v (AStr s) = (s = v)"
| "value_matches v (AList l) = (v \<in> set l \<or> join (str '' '') l = v)"

definition attr_matches :: "pystr \<Rightarrow> pystr \<Rightarrow> node \<Rightarrow> bool" where
  "attr_matches key v n = (case get_attr n key of None \<Rightarrow> False | Some w \<Rightarrow> value_matches v w)"

definition extract_meta_soup :: "node list \<Rightarrow> (pystr \<times> attrval) list" where
  "extract_meta_soup soup =
     (let title_el =
            (case find_first (\<lambda>n. tag_of n = str ''h1'' \<and> attr_matches (str ''class'') (str ''sect0'') n) soup of
               Some e \<Rightarrow> Some e
             | None \<Rightarrow>
                 (case find_first (\<lambda>n. tag_of n = str ''h1'') soup of
                    Some e \<Rightarrow> Some e
                  | None \<Rightarrow> find_first (\<lambda>n. tag_of n = str ''title'') soup));
          meta = (case title_el of None \<Rightarrow> [] | Some e \<Rightarrow> [(str ''title'', AStr (get_text e))]);
          desc = find_first (\<lambda>n. tag_of n = str ''meta'' \<and> attr_matches (str ''name'') (str ''description'') n) soup
      in case desc of
           None \<Rightarrow> meta
         | Some d \<Rightarrow>
             (case get_attr d (str ''content'') of
                None \<Rightarrow> meta
              | Some c \<Rightarrow> if truthy c then meta @ [(str ''description'', c)] else meta))"

definition extract_meta_from_html :: "library \<Rightarrow> pystr \<Rightarrow> (pystr \<times> attrval) list" where
  "extract_meta_from_html L html = extract_meta_soup (html_parser L html)"

section \<open>Running the renderer\<close>

text \<open>
  The plugin's configuration as \<open>on_config\<close> stores it. The attributes are the pairs of
  \<open>self._attrs.items()\<close>, key and value as \<open>str\<close> formats them.
\<close>

record config =
  cmd :: pystr
  safe :: pystr
  base_dir :: pystr
  attrs :: "(pystr \<times> pystr) list"
  reqs :: "pystr list"
  fail :: bool
  trace :: bool

text \<open>
  What \<open>subprocess.run(args, check=True, capture_output=True)\<close> can do: raise
  \<open>FileNotFoundError\<close>; raise \<open>CalledProcessError\<close> (a non-zero exit status); return
  the completed process; raise another exception, which \<open>_run_asciidoctor\<close> does not
  catch. The byte strings \<open>e.stderr\<close> and \<open>proc.stdout\<close> stand here as the texts
  \<open>.decode("utf-8", errors="ignore")\<close> makes of them, the only way the code reads
  them.
\<close>

datatype proc_outcome =
    FileNotFoundError
  | CalledProcessError pystr
  | CompletedProcess pystr
  | OtherException pystr

text \<open>
  How a call ends when it does not return: \<open>SystemExit\<close> with its message (the build
  stops), or another exception that nothing in the plugin catches.
\<close>

datatype error = SystemExit pystr | Uncaught pystr

definition renderer_args :: "config \<Rightarrow> pystr \<Rightarrow> pystr list" where
  "renderer_args cfg src =
     [cmd cfg, str ''-S'', safe cfg, str ''-b'', str ''html5'', str ''-s'', str ''-o'', str ''-'', src]
     @ [str ''-B'', base_dir cfg]
     @ concat (map (\<lambda>r. [str ''-r'', r]) (reqs cfg))
     @ concat (map (\<lambda>(k, v). [str ''-a'', k @ str ''='' @ v]) (attrs cfg))
     @ (if trace cfg then [str ''--trace''] else [])"

definition not_found_msg :: "config \<Rightarrow> pystr" where
  "not_found_msg cfg =
     str ''Asciidoctor not found: '' @ [39] @ cmd cfg @ [39] @ str ''. Install with: gem install asciidoctor''"

definition failed_msg :: "pystr \<Rightarrow> pystr \<Rightarrow> pystr" where
  "failed_msg src stderr = str ''Asciidoctor failed for '' @ src @ str '':'' @ [10] @ stderr"

definition placeholder :: "pystr \<Rightarrow> pystr" where
  "placeholder msg = str ''<pre>'' @ escape msg @ str ''</pre>''"

definition run_asciidoctor ::
  "library \<Rightarrow> config \<Rightarrow> (pystr list \<Rightarrow> proc_outcome) \<Rightarrow> pystr \<Rightarrow> error + (pystr \<times> (pystr \<times> attrval) list)" where
  "run_asciidoctor L cfg subprocess_run src =
     (case subprocess_run (renderer_args cfg src) of
        FileNotFoundError \<Rightarrow>
          (if fail cfg then Inl (SystemExit (not_found_msg cfg))
           else Inr (placeholder (not_found_msg cfg), []))
      | CalledProcessError stderr \<Rightarrow>
          (if fail cfg then Inl (SystemExit (failed_msg src stderr))
           else Inr (placeholder (failed_msg src stderr), []))
      | CompletedProcess stdout \<Rightarrow> Inr (stdout, extract_meta_from_html L stdout)
      | OtherException e \<Rightarrow> Inl (Uncaught e))"

section \<open>The render cache\<close>

text \<open>
  The world a call of \<open>_render_adoc_cached\<close> sees: for a path that is a readable file,
  its \<open>st_mtime\<close> and the hexadecimal SHA-1 digest of its bytes (what \<open>_sha1_file\<close>
  returns); and what running a command would do. A modification time is only ever
  compared for equality, so its type is left open.
\<close>

record 't world =
  files :: "pystr \<rightharpoonup> 't \<times> pystr"
  subprocess_run :: "pystr list \<Rightarrow> proc_outcome"

record rendered =
  html :: pystr
  toc :: toc
  meta :: "(pystr \<times> attrval) list"

text \<open>
  The plugin object: the cache, the pages \<open>on_files\<close> registered, and a log of the
  commands run so far. The log is not in the code; it records each call of
  \<open>subprocess.run\<close>.
\<close>

record 't plugin =
  cache :: "pystr \<rightharpoonup> 't \<times> pystr \<times> rendered"
  adoc_pages :: "pystr \<rightharpoonup> pystr"
  spawned :: "pystr list list"

definition render_fresh ::
  "library \<Rightarrow> config \<Rightarrow> 't world \<Rightarrow> 't plugin \<Rightarrow> pystr \<Rightarrow> 't \<Rightarrow> pystr \<Rightarrow> (error + rendered) \<times> 't plugin" where
  "render_fresh L cfg w p src mtime sha1 =
     (let p1 = p\<lparr>spawned := spawned p @ [renderer_args cfg src]\<rparr>
      in case run_asciidoctor L cfg (subprocess_run w) src of
           Inl e \<Rightarrow> (Inl e, p1)
         | Inr (h, m) \<Rightarrow>
             (let r = \<lparr>html = h, toc = build_toc L h, meta = m\<rparr>
              in (Inr r, p1\<lparr>cache := (cache p1)(src \<mapsto> (mtime, sha1, r))\<rparr>)))"

definition render_adoc_cached ::
  "library \<Rightarrow> config \<Rightarrow> 't world \<Rightarrow> 't plugin \<Rightarrow> pystr \<Rightarrow> (error + rendered) \<times> 't plugin" where
  "render_adoc_cached L cfg w p src =
     (case files w src of
        None \<Rightarrow> (Inl (Uncaught (str ''FileNotFoundError'')), p)
      | Some (mtime, sha1) \<Rightarrow>
          (case cache p src of
             None \<Rightarrow> render_fresh L cfg w p src mtime sha1
           | Some (m, s, r) \<Rightarrow>
               if m = mtime \<and> s = sha1 then (Inr r, p)
               else render_fresh L cfg w p src mtime sha1))"

section \<open>Examples\<close>

text \<open>A configuration with the plugin's defaults, except that errors do not stop the build.\<close>

definition example_config :: config where
  "example_config =
     \<lparr>cmd = str ''asciidoctor'', safe = str ''safe'', base_dir = str ''/site/docs'',
      attrs = [], reqs = [], fail = False, trace = False\<rparr>"

definition example_path :: pystr where
  "example_path = str ''/site/docs/a.adoc''"

text \<open>
  A world in which the page source exists, with a modification time and a digest, and in
  which running the renderer has a given outcome; a plugin right after \<open>on_config\<close> and
  \<open>on_files\<close>, its cache empty.
\<close>

definition example_world :: "nat \<Rightarrow> pystr \<Rightarrow> proc_outcome \<Rightarrow> nat world" where
  "example_world mtime sha1 outcome =
     \<lparr>files = [example_path \<mapsto> (mtime, sha1)], subprocess_run = (\<lambda>args. outcome)\<rparr>"

definition new_plugin :: "nat plugin" where
  "new_plugin = \<lparr>cache = Map.empty, adoc_pages = [str ''a.adoc'' \<mapsto> example_path], spawned = []\<rparr>"

definition example_rendered :: rendered where
  "example_rendered =
     \<lparr>html = str ''<h2>Intro</h2>'', toc = build_toc example_library (str ''<h2>Intro</h2>''),
      meta = extract_meta_from_html example_library (str ''<h2>Intro</h2>'')\<rparr>"

definition placeholder_rendered :: rendered where
  "placeholder_rendered =
     \<lparr>html = placeholder (not_found_msg example_config), toc = \<lparr>links = [], items = []\<rparr>, meta = []\<rparr>"

text \<open>
  The source of the page title as the specification words it: the document-title
  heading, else the first heading element of any level, else a \<open>title\<close> element.
\<close>

definition title_source_as_worded :: "node list \<Rightarrow> node option" where
  "title_source_as_worded soup =
     (case find_first (\<lambda>n. tag_of n = str ''h1'' \<and> attr_matches (str ''class'') (str ''sect0'') n) soup of
        Some e \<Rightarrow> Some e
      | None \<Rightarrow>
          (case find_first (\<lambda>n. tag_of n \<in> set heading_tags) soup of
             Some e \<Rightarrow> Some e
           | None \<Rightarrow> find_first (\<lambda>n. tag_of n = str ''title'') soup))"

section \<open>The three rewriting passes\<close>

subsection \<open>Selectors\<close>

text \<open>
  A CSS class selector, as the \<open>soupsieve\<close> library of \<open>select\<close> and \<open>select_one\<close>
  matches it: against the members of a list value, or the pieces of a text value between
  CSS white space.
\<close>

definition css_space :: "nat \<Rightarrow> bool" where
  "css_space c \<longleftrightarrow> c = 32 \<or> c = 9 \<or> c = 10 \<or> c = 12 \<or> c = 13"

function css_split :: "pystr \<Rightarrow> pystr list" where
  "css_split [] = []"
| "css_split (c # cs) =
     (if css_space c then css_split cs
      else (c # takeWhile (\<lambda>x. \<not> css_space x) cs) # css_split (dropWhile (\<lambda>x. \<not> css_space x) cs))"
  by pat_completeness auto
termination
  by (relation "measure length") (auto simp: less_Suc_eq_le length_dropWhile_le)

definition classes_of :: "node \<Rightarrow> pystr list" where
  "classes_of n =
     (case get_attr n (str ''class'') of
        None \<Rightarrow> []
      | Some (AList l) \<Rightarrow> l
      | Some (AStr s) \<Rightarrow> css_split s)"

definition has_class :: "pystr \<Rightarrow> node \<Rightarrow> bool" where
  "has_class c n \<longleftrightarrow> (case n of Element t a cs \<Rightarrow> c \<in> set (classes_of n) | _ \<Rightarrow> False)"

definition is_tag :: "pystr \<Rightarrow> node \<Rightarrow> bool" where
  "is_tag t n \<longleftrightarrow> tag_of n = t"

subsection \<open>\<open>_strip_conum_from_code\<close>\<close>

text \<open>
  The pattern \<^verbatim>\<open>[ \t]*(\(\d+\)|<\d+>)[ \t]*(?=\n|$)\<close> with the flag \<open>re.M\<close>.
  Each of its parts can match in one way only (a repetition that gives a character back
  meets the same character again), so a match at the start of a text is found by
  reading on: blanks, an opening bracket, digits, the closing bracket of the same kind,
  blanks, and then a newline or the end of the text. \<open>conum_match\<close> returns what
  follows the match.
\<close>

definition blank :: "nat \<Rightarrow> bool" where
  "blank c \<longleftrightarrow> c = 32 \<or> c = 9"

definition digit :: "library \<Rightarrow> nat \<Rightarrow> bool" where
  "digit L c \<longleftrightarrow> (48 \<le> c \<and> c \<le> 57) \<or> (128 \<le> c \<and> decimal L c)"

definition closing :: "nat \<Rightarrow> nat option" where
  "closing c = (if c = 40 then Some 41 else if c = 60 then Some 62 else None)"

definition conum_match :: "library \<Rightarrow> pystr \<Rightarrow> pystr option" where
  "conum_match L s =
     (case dropWhile blank s of
        [] \<Rightarrow> None
      | c # r \<Rightarrow>
          (case closing c of
             None \<Rightarrow> None
           | Some close \<Rightarrow>
               (if takeWhile (digit L) r = [] then None
                else
                  (case dropWhile (digit L) r of
                     [] \<Rightarrow> None
                   | d # r' \<Rightarrow>
                       if d = close \<and> (dropWhile blank r' = [] \<or> hd (dropWhile blank r') = 10)
                       then Some (dropWhile blank r') else None))))"

lemma conum_match_shorter: "conum_match L s = Some r \<Longrightarrow> length r < length s"
proof -
  assume m: "conum_match L s = Some r"
  then obtain c t where s1: "dropWhile blank s = c # t"
    by (auto simp: conum_match_def split: list.splits)
  from m s1 obtain d t' where s2: "dropWhile (digit L) t = d # t'" and r: "r = dropWhile blank t'"
    by (auto simp: conum_match_def split: list.splits option.splits if_splits)
  have "length r \<le> length t'" using r by (simp add: length_dropWhile_le)
  also have "length t' < length (dropWhile (digit L) t)" using s2 by simp
  also have "\<dots> \<le> length t" by (rule length_dropWhile_le)
  also have "length t < length (dropWhile blank s)" using s1 by simp
  also have "\<dots> \<le> length s" by (rule length_dropWhile_le)
  finally show ?thesis .
qed

text \<open>\<open>re.sub(pattern, "", raw, flags=re.M)\<close>: every match, from left to right, is deleted.\<close>

function re_sub_conum :: "library \<Rightarrow> pystr \<Rightarrow> pystr" where
  "re_sub_conum L [] = []"
| "re_sub_conum L (c # cs) =
     (case conum_match L (c # cs) of
        Some rest \<Rightarrow> re_sub_conum L rest
      | None \<Rightarrow> c # re_sub_conum L cs)"
  by pat_completeness auto
termination
  by (relation "measure (\<lambda>(L, s). length s)") (auto dest: conum_match_shorter)

text \<open>
  The two loops over the markers below a \<open>pre\<close>. \<open>decompose_conum\<close> removes every
  element of the class \<open>conum\<close> that has no \<open>data-value\<close> attribute, with all that is
  below it. \<open>hide_conum\<close> then empties every element of the class that has the
  attribute and sets its \<open>aria-hidden\<close>; what was below such an element is gone from
  the document, so the loop's later rounds for elements there do not show.
\<close>

definition conum_fallback :: "node \<Rightarrow> bool" where
  "conum_fallback n \<longleftrightarrow> has_class (str ''conum'') n \<and> get_attr n (str ''data-value'') = None"

definition conum_marker :: "node \<Rightarrow> bool" where
  "conum_marker n \<longleftrightarrow> has_class (str ''conum'') n \<and> get_attr n (str ''data-value'') \<noteq> None"

fun decompose_conum :: "node \<Rightarrow> node list" where
  "decompose_conum (Element t a cs) =
     (if conum_fallback (Element t a cs) then []
      else [Element t a (concat (map decompose_conum cs))])"
| "decompose_conum n = [n]"

fun hide_conum :: "node \<Rightarrow> node" where
  "hide_conum (Element t a cs) =
     (if conum_marker (Element t a cs)
      then Element t (set_item a (str ''aria-hidden'') (AStr (str ''true''))) []
      else Element t a (map hide_conum cs))"
| "hide_conum n = n"

definition neutralize :: "node list \<Rightarrow> node list" where
  "neutralize cs = map hide_conum (concat (map decompose_conum cs))"

text \<open>The number of nodes of a tree; the passes that descend into rewritten children terminate by it.\<close>

fun weight :: "node \<Rightarrow> nat" where
  "weight (Element t a cs) = Suc (sum_list (map weight cs))"
| "weight n = 1"

lemma weight_member: "x \<in> set xs \<Longrightarrow> weight x \<le> sum_list (map weight xs)"
  by (induction xs) auto

lemma weight_decompose_conum: "sum_list (map weight (decompose_conum n)) \<le> weight n"
proof (induction n)
  case (Element t a cs)
  have "sum_list (map weight (concat (map decompose_conum cs))) \<le> sum_list (map weight cs)"
    using Element by (induction cs) (auto simp: add_mono)
  then show ?case by simp
qed simp_all

lemma weight_decompose_conum_list:
  "sum_list (map weight (concat (map decompose_conum cs))) \<le> sum_list (map weight cs)"
  by (induction cs) (auto simp: add_mono weight_decompose_conum simp del: decompose_conum.simps)

lemma weight_hide_conum: "weight (hide_conum n) \<le> weight n"
proof (induction n)
  case (Element t a cs)
  have "sum_list (map weight (map hide_conum cs)) \<le> sum_list (map weight cs)"
    using Element by (induction cs) (auto simp: add_mono)
  then show ?case by simp
qed simp_all

lemma weight_neutralize: "sum_list (map weight (neutralize cs)) \<le> sum_list (map weight cs)"
proof -
  have "sum_list (map weight (map hide_conum xs)) \<le> sum_list (map weight xs)" for xs
    by (induction xs) (auto simp: add_mono weight_hide_conum simp del: hide_conum.simps)
  then have "sum_list (map weight (neutralize cs)) \<le>
      sum_list (map weight (concat (map decompose_conum cs)))"
    unfolding neutralize_def .
  also have "\<dots> \<le> sum_list (map weight cs)" by (rule weight_decompose_conum_list)
  finally show ?thesis .
qed

lemma weight_in_neutralize:
  "x \<in> set (neutralize cs) \<Longrightarrow> weight x \<le> sum_list (map weight cs)"
  using weight_member [of x "neutralize cs"] weight_neutralize [of cs] by simp

text \<open>
  The loop over \<open>soup.select("div.listingblock pre")\<close>, as a walk down the document;
  \<open>inside\<close> says that an ancestor is a \<open>div\<close> of the class \<open>listingblock\<close>. At a
  \<open>pre\<close> there, the markers below it are neutralized and the pattern is applied to
  the written-out content. When that changes the content, the nodes of the parsed result
  take its place (\<open>append\<close> of a \<open>BeautifulSoup\<close> object inserts the object's
  children). The old content, with any \<open>pre\<close> inside it, is then out of the document,
  and the rounds of the loop for those do not show. When the content stays, the loop's
  later rounds treat the \<open>pre\<close> elements inside it.
\<close>

function strip_node :: "library \<Rightarrow> bool \<Rightarrow> node \<Rightarrow> node" where
  "strip_node L inside (Element t a cs) =
     (if inside \<and> t = str ''pre'' then
        (if re_sub_conum L (decode_contents (neutralize cs)) \<noteq> decode_contents (neutralize cs)
         then Element t a (html_parser L (re_sub_conum L (decode_contents (neutralize cs))))
         else Element t a (map (strip_node L True) (neutralize cs)))
      else Element t a
             (map (strip_node L (inside \<or> (t = str ''div'' \<and> has_class (str ''listingblock'') (Element t a cs)))) cs))"
| "strip_node L inside (Text s) = Text s"
| "strip_node L inside (Opaque s) = Opaque s"
  by pat_completeness auto
termination
  by (relation "measure (\<lambda>(L, inside, n). weight n)")
     (auto simp: less_Suc_eq_le weight_member weight_in_neutralize)

definition strip_conum_soup :: "library \<Rightarrow> node list \<Rightarrow> node list" where
  "strip_conum_soup L soup = map (strip_node L False) soup"

definition strip_conum_from_code :: "library \<Rightarrow> pystr \<Rightarrow> pystr" where
  "strip_conum_from_code L markup = decode_contents (strip_conum_soup L (html_parser L markup))"

subsection \<open>\<open>_callout_table_to_ol\<close>\<close>

text \<open>
  This pass replaces elements in place while it walks a list of elements selected
  before. An element of the list is named by its path, the positions to follow from the
  top of the document down to it; \<open>replace_with\<close> keeps the position of what it
  replaces, so the paths of the other elements stay right.
\<close>

fun node_at :: "node list \<Rightarrow> nat list \<Rightarrow> node option" where
  "node_at ns [] = None"
| "node_at ns [i] = (if i < length ns then Some (ns ! i) else None)"
| "node_at ns (i # j # p) = (if i < length ns then node_at (contents (ns ! i)) (j # p) else None)"

fun replace_at :: "node list \<Rightarrow> nat list \<Rightarrow> node \<Rightarrow> node list" where
  "replace_at ns [] new = ns"
| "replace_at ns [i] new = ns[i := new]"
| "replace_at ns (i # j # p) new =
     (if i < length ns
      then (case ns ! i of
              Element t a cs \<Rightarrow> ns[i := Element t a (replace_at cs (j # p) new)]
            | _ \<Rightarrow> ns)
      else ns)"

text \<open>
  The paths of the elements that satisfy \<open>sel\<close>, in document order: \<open>paths_below\<close>
  those below a node, from that node; \<open>paths_from i\<close> those in a list of siblings of
  which the first has the position \<open>i\<close>.
\<close>

fun paths_below :: "(node \<Rightarrow> bool) \<Rightarrow> node \<Rightarrow> nat list list"
  and paths_from :: "(node \<Rightarrow> bool) \<Rightarrow> nat \<Rightarrow> node list \<Rightarrow> nat list list" where
  "paths_below sel (Element t a cs) = paths_from sel 0 cs"
| "paths_below sel (Text s) = []"
| "paths_below sel (Opaque s) = []"
| "paths_from sel i [] = []"
| "paths_from sel i (n # ns) =
     (if sel n then [[i]] else []) @ map ((#) i) (paths_below sel n) @ paths_from sel (Suc i) ns"

definition is_colist :: "node \<Rightarrow> bool" where
  "is_colist n \<longleftrightarrow> is_tag (str ''div'') n \<and> has_class (str ''colist'') n"

text \<open>
  The inner loop over the rows: a row with fewer than two tds is passed over, any
  other row adds a list item that holds the second cell's content, written out and
  parsed again.
\<close>

fun append_node :: "node \<Rightarrow> node \<Rightarrow> node" where
  "append_node (Element t a cs) n = Element t a (cs @ [n])"
| "append_node m n = m"

definition row_round :: "library \<Rightarrow> node \<Rightarrow> node \<Rightarrow> node" where
  "row_round L ol tr =
     (let tds = find_all (is_tag (str ''td'')) (contents tr)
      in if length tds < 2 then ol
         else append_node ol
                (Element (str ''li'') [] (html_parser L (decode_contents (contents (tds ! 1))))))"

definition callout_ol :: "library \<Rightarrow> node list \<Rightarrow> node" where
  "callout_ol L rows =
     foldl (row_round L) (Element (str ''ol'') [(str ''class'', AStr (str ''colist''))] []) rows"

text \<open>
  One round of the outer loop, for the \<open>div.colist\<close> at the path \<open>p\<close>. \<open>gone\<close> holds
  the paths of the tables replaced so far. An element of the list that lies below one
  of them left the document with that table: what the loop does to it does not show.
\<close>

definition colist_round ::
  "library \<Rightarrow> node list \<times> nat list list \<Rightarrow> nat list \<Rightarrow> node list \<times> nat list list" where
  "colist_round L s p =
     (if list_ex (\<lambda>q. prefix q p) (snd s) then s
      else
        (case node_at (fst s) p of
           None \<Rightarrow> s
         | Some colist \<Rightarrow>
             (case paths_from (is_tag (str ''table'')) 0 (contents colist) of
                [] \<Rightarrow> s
              | tp # others \<Rightarrow>
                  (case node_at (contents colist) tp of
                     None \<Rightarrow> s
                   | Some table \<Rightarrow>
                       (let rows = find_all (is_tag (str ''tr'')) (contents table)
                        in if rows = [] then s
                           else (replace_at (fst s) (p @ tp) (callout_ol L rows), (p @ tp) # snd s))))))"

definition callout_table_to_ol_soup :: "library \<Rightarrow> node list \<Rightarrow> node list" where
  "callout_table_to_ol_soup L soup =
     fst (foldl (colist_round L) (soup, []) (paths_from is_colist 0 soup))"

definition callout_table_to_ol :: "library \<Rightarrow> pystr \<Rightarrow> pystr" where
  "callout_table_to_ol L markup = decode_contents (callout_table_to_ol_soup L (html_parser L markup))"


subsection \<open>\<open>_admonitions_to_material\<close>\<close>

text \<open>
  \<open>change_first sel f ns\<close> finds the first element below the siblings \<open>ns\<close> (one of
  them, or below one) that satisfies \<open>sel\<close>, as \<open>select_one\<close> does, and returns it
  together with the siblings in which \<open>f\<close> of the element stands in its place. With
  nothing in its place this is \<open>extract\<close>; with the emptied element there it is what
  stays behind when the element's children are moved away.
\<close>

fun change_first ::
  "(node \<Rightarrow> bool) \<Rightarrow> (node \<Rightarrow> node list) \<Rightarrow> node list \<Rightarrow> (node \<times> node list) option" where
  "change_first sel f [] = None"
| "change_first sel f (Element t a cs # ns) =
     (if sel (Element t a cs) then Some (Element t a cs, f (Element t a cs) @ ns)
      else
        (case change_first sel f cs of
           Some (e, cs') \<Rightarrow> Some (e, Element t a cs' # ns)
         | None \<Rightarrow> map_option (\<lambda>(e, ns'). (e, Element t a cs # ns')) (change_first sel f ns)))"
| "change_first sel f (Text s # ns) = map_option (\<lambda>(e, ns'). (e, Text s # ns')) (change_first sel f ns)"
| "change_first sel f (Opaque s # ns) = map_option (\<lambda>(e, ns'). (e, Opaque s # ns')) (change_first sel f ns)"

fun emptied :: "node \<Rightarrow> node list" where
  "emptied (Element t a cs) = [Element t a []]"
| "emptied n = [n]"

definition is_admonition_block :: "node \<Rightarrow> bool" where
  "is_admonition_block n \<longleftrightarrow> is_tag (str ''div'') n \<and> has_class (str ''admonitionblock'') n"

text \<open>
  \<open>set(blk.get("class", []))\<close>: the members of a list value; of a text value, its
  characters. The kind is the first member of \<open>kinds\<close>, in the order of iteration, that
  is among them, and \<open>note\<close> when there is none.
\<close>

definition class_set :: "node \<Rightarrow> pystr list" where
  "class_set n =
     (case get_attr n (str ''class'') of
        None \<Rightarrow> []
      | Some (AList l) \<Rightarrow> l
      | Some (AStr s) \<Rightarrow> map (\<lambda>c. [c]) s)"

definition admonition_kind :: "library \<Rightarrow> node \<Rightarrow> pystr" where
  "admonition_kind L blk =
     (case filter (\<lambda>k. k \<in> set (class_set blk)) (kinds_order L) of
        [] \<Rightarrow> str ''note''
      | k # ks \<Rightarrow> k)"

text \<open>\<open>str.capitalize()\<close>, for ASCII texts such as the five kinds.\<close>

definition capitalize :: "pystr \<Rightarrow> pystr" where
  "capitalize s =
     (case s of [] \<Rightarrow> [] | c # cs \<Rightarrow> (if 97 \<le> c \<and> c \<le> 122 then c - 32 else c) # lower cs)"

text \<open>
  The parts of a block with the children \<open>cs\<close>. \<open>content_split\<close>: the children of
  \<open>content\<close> (the first element of the class \<open>content\<close> below the block, or the block
  itself), and what stays in the old block when they are moved. \<open>title_split\<close>: the
  title element, the first of the class \<open>title\<close> below \<open>content\<close>, as a list of one
  or no element, and the children of \<open>content\<close> without it. \<open>moved\<close> are the nodes
  that go into the new \<open>div\<close>; \<open>left_behind\<close> is what leaves the document.
\<close>

definition content_split :: "node list \<Rightarrow> node list \<times> node list" where
  "content_split cs =
     (case change_first (has_class (str ''content'')) emptied cs of
        Some (c, rest) \<Rightarrow> (contents c, rest)
      | None \<Rightarrow> (cs, []))"

definition title_split :: "node list \<Rightarrow> node list \<times> node list" where
  "title_split k =
     (case change_first (has_class (str ''title'')) (\<lambda>e. []) k of
        Some (e, rest) \<Rightarrow> ([e], rest)
      | None \<Rightarrow> ([], k))"

definition title_of :: "node list \<Rightarrow> node list" where
  "title_of cs = fst (title_split (fst (content_split cs)))"

definition moved :: "node list \<Rightarrow> node list" where
  "moved cs = snd (title_split (fst (content_split cs)))"

definition left_behind :: "node list \<Rightarrow> node list" where
  "left_behind cs = title_of cs @ snd (content_split cs)"

definition title_text :: "library \<Rightarrow> node \<Rightarrow> pystr" where
  "title_text L blk =
     (case title_of (contents blk) of
        [] \<Rightarrow> capitalize (admonition_kind L blk)
      | e # es \<Rightarrow> get_text e)"

definition new_admonition :: "library \<Rightarrow> node \<Rightarrow> node list \<Rightarrow> node" where
  "new_admonition L blk body =
     Element (str ''div'') [(str ''class'', AList [str ''admonition'', admonition_kind L blk])]
       (Element (str ''p'') [(str ''class'', AList [str ''admonition-title''])] [Text (title_text L blk)]
        # body)"

lemma weight_change_first:
  "change_first sel f ns = Some (e, rest) \<Longrightarrow>
   weight e \<le> sum_list (map weight ns) \<and>
   ((\<forall>n. sum_list (map weight (f n)) \<le> weight n) \<longrightarrow> sum_list (map weight rest) \<le> sum_list (map weight ns))"
proof (induction sel f ns arbitrary: e rest rule: change_first.induct)
  case (1 sel f)
  then show ?case by simp
next
  case (2 sel f t a cs ns)
  show ?case
  proof (cases "sel (Element t a cs)")
    case True
    with 2(3) have e: "e = Element t a cs" and rest: "rest = f (Element t a cs) @ ns" by auto
    have "(\<forall>n. sum_list (map weight (f n)) \<le> weight n) \<longrightarrow>
        sum_list (map weight (f (Element t a cs))) \<le> weight (Element t a cs)" by blast
    with e rest show ?thesis by (auto simp: add_mono)
  next
    case False
    show ?thesis
    proof (cases "change_first sel f cs")
      case None
      with False 2(3) obtain ns' where r: "change_first sel f ns = Some (e, ns')"
        and rest: "rest = Element t a cs # ns'"
        by auto
      from 2(2) [OF False None r] rest show ?thesis by auto
    next
      case (Some x)
      obtain e' cs' where x: "x = (e', cs')" by (cases x)
      with Some False 2(3) have e: "e' = e" and rest: "rest = Element t a cs' # ns" by auto
      from 2(1) [OF False] Some x e have
        "weight e \<le> sum_list (map weight cs) \<and>
         ((\<forall>n. sum_list (map weight (f n)) \<le> weight n) \<longrightarrow>
            sum_list (map weight cs') \<le> sum_list (map weight cs))" by simp
      with rest show ?thesis by auto
    qed
  qed
next
  case (3 sel f s ns)
  then show ?case by auto
next
  case (4 sel f s ns)
  then show ?case by auto
qed

lemma weight_contents: "sum_list (map weight (contents n)) \<le> weight n"
  by (cases n) auto

lemma weight_emptied: "sum_list (map weight (emptied n)) \<le> weight n"
  by (cases n) auto

lemma weight_content_split:
  "sum_list (map weight (fst (content_split cs))) \<le> sum_list (map weight cs)"
  "sum_list (map weight (snd (content_split cs))) \<le> sum_list (map weight cs)"
proof -
  show "sum_list (map weight (fst (content_split cs))) \<le> sum_list (map weight cs)"
  proof (cases "change_first (has_class (str ''content'')) emptied cs")
    case None
    then show ?thesis by (simp add: content_split_def)
  next
    case (Some x)
    obtain c rest where x: "x = (c, rest)" by (cases x)
    from weight_change_first [of _ emptied cs c rest] Some x
    have "weight c \<le> sum_list (map weight cs)" by simp
    with weight_contents [of c] Some x show ?thesis by (simp add: content_split_def)
  qed
  show "sum_list (map weight (snd (content_split cs))) \<le> sum_list (map weight cs)"
  proof (cases "change_first (has_class (str ''content'')) emptied cs")
    case None
    then show ?thesis by (simp add: content_split_def)
  next
    case (Some x)
    obtain c rest where x: "x = (c, rest)" by (cases x)
    from weight_change_first [of _ emptied cs c rest] Some x weight_emptied
    show ?thesis by (simp add: content_split_def)
  qed
qed

lemma weight_title_split:
  "sum_list (map weight (fst (title_split k))) \<le> sum_list (map weight k)"
  "sum_list (map weight (snd (title_split k))) \<le> sum_list (map weight k)"
proof -
  show "sum_list (map weight (fst (title_split k))) \<le> sum_list (map weight k)"
  proof (cases "change_first (has_class (str ''title'')) (\<lambda>e. []) k")
    case None
    then show ?thesis by (simp add: title_split_def)
  next
    case (Some x)
    obtain c rest where x: "x = (c, rest)" by (cases x)
    from weight_change_first [of _ "\<lambda>e. []" k c rest] Some x
    show ?thesis by (simp add: title_split_def)
  qed
  show "sum_list (map weight (snd (title_split k))) \<le> sum_list (map weight k)"
  proof (cases "change_first (has_class (str ''title'')) (\<lambda>e. []) k")
    case None
    then show ?thesis by (simp add: title_split_def)
  next
    case (Some x)
    obtain c rest where x: "x = (c, rest)" by (cases x)
    from weight_change_first [of _ "\<lambda>e. []" k c rest] Some x
    show ?thesis by (simp add: title_split_def)
  qed
qed

lemma weight_moved: "x \<in> set (moved cs) \<Longrightarrow> weight x \<le> sum_list (map weight cs)"
  using weight_member [of x "moved cs"] weight_title_split(2) [of "fst (content_split cs)"]
    weight_content_split(1) [of cs]
  by (simp add: moved_def)

lemma weight_left_behind: "x \<in> set (left_behind cs) \<Longrightarrow> weight x \<le> sum_list (map weight cs)"
proof -
  assume "x \<in> set (left_behind cs)"
  then consider "x \<in> set (title_of cs)" | "x \<in> set (snd (content_split cs))"
    by (auto simp: left_behind_def)
  then show ?thesis
  proof cases
    case 1
    then show ?thesis
      using weight_member [of x "title_of cs"] weight_title_split(1) [of "fst (content_split cs)"]
        weight_content_split(1) [of cs]
      by (simp add: title_of_def)
  next
    case 2
    then show ?thesis
      using weight_member [of x "snd (content_split cs)"] weight_content_split(2) [of cs] by simp
  qed
qed

text \<open>
  The loop over \<open>soup.select("div.admonitionblock")\<close>, as a walk down the document. A
  block is replaced by the new \<open>div\<close>; the blocks among the nodes moved into it are the
  loop's later rounds and are treated there, in their new place. The loop also reaches
  the blocks the round left behind, in the title element and in the old block. What it
  does to them does not show in the document, with one exception: \<open>replace_with\<close>
  raises \<open>ValueError\<close> for an element without a parent, which is what a title element
  is once it is extracted. The first component of the result says that the loop raises.
\<close>

function admon :: "library \<Rightarrow> node \<Rightarrow> bool \<times> node" where
  "admon L (Element t a cs) =
     (if is_admonition_block (Element t a cs) then
        (list_ex is_admonition_block (title_of cs)
           \<or> list_ex (\<lambda>n. fst (admon L n)) (left_behind cs)
           \<or> list_ex (\<lambda>n. fst (admon L n)) (moved cs),
         new_admonition L (Element t a cs) (map (\<lambda>n. snd (admon L n)) (moved cs)))
      else (list_ex (\<lambda>n. fst (admon L n)) cs, Element t a (map (\<lambda>n. snd (admon L n)) cs)))"
| "admon L (Text s) = (False, Text s)"
| "admon L (Opaque s) = (False, Opaque s)"
  by pat_completeness auto
termination
  by (relation "measure (\<lambda>(L, n). weight n)")
     (auto simp: less_Suc_eq_le weight_member weight_moved weight_left_behind)

definition admonitions_soup :: "library \<Rightarrow> node list \<Rightarrow> error + node list" where
  "admonitions_soup L soup =
     (if list_ex (\<lambda>n. fst (admon L n)) soup then Inl (Uncaught (str ''ValueError''))
      else Inr (map (\<lambda>n. snd (admon L n)) soup))"

definition admonitions_to_material :: "library \<Rightarrow> pystr \<Rightarrow> error + pystr" where
  "admonitions_to_material L markup =
     (case admonitions_soup L (html_parser L markup) of
        Inl e \<Rightarrow> Inl e
      | Inr soup \<Rightarrow> Inr (decode_contents soup))"


section \<open>The page hook\<close>

text \<open>
  Lines 164 to 166 of \<open>on_page_content\<close>, the three passes one after the other (the
  HTML Normalizer of the specification); each parses its argument anew and writes its
  result out.
\<close>

definition normalize :: "library \<Rightarrow> pystr \<Rightarrow> error + pystr" where
  "normalize L markup =
     (case admonitions_to_material L markup of
        Inl e \<Rightarrow> Inl e
      | Inr fixed \<Rightarrow> Inr (strip_conum_from_code L (callout_table_to_ol L fixed)))"



section \<open>Vocabulary of the properties\<close>

text \<open>
  \<open>tds\<close> is \<open>tr.find_all("td")\<close>: the \<open>td\<close> elements anywhere below a \<open>tr\<close>, those
  of tables nested in it included. \<open>callout_li\<close> is the list item the callout pass makes
  of a \<open>tr\<close>, from the second of them.
\<close>

definition tds :: "node \<Rightarrow> node list" where
  "tds tr = find_all (is_tag (str ''td'')) (contents tr)"








text \<open>
  The headings of a document by tag and \<open>id\<close>: for each heading element, in document
  order, its tag and the value of its \<open>id\<close> attribute, or \<open>None\<close> when it has none.
\<close>

definition is_heading :: "node \<Rightarrow> bool" where
  "is_heading n \<longleftrightarrow> tag_of n \<in> set heading_tags"

definition heading_ids :: "node list \<Rightarrow> (pystr \<times> attrval option) list" where
  "heading_ids soup = map (\<lambda>x. (tag_of x, get_attr x (str ''id''))) (find_all is_heading soup)"







definition is_listing_block :: "node \<Rightarrow> bool" where
  "is_listing_block n \<longleftrightarrow> is_tag (str ''div'') n \<and> has_class (str ''listingblock'') n"

text \<open>A document in which the three passes find nothing to rewrite.\<close>

definition plain :: "node list \<Rightarrow> bool" where
  "plain soup \<longleftrightarrow>
     \<not> list_ex is_admonition_block (descendants soup) \<and>
     \<not> list_ex is_colist (descendants soup) \<and>
     \<not> list_ex is_listing_block (descendants soup)"





definition four_headings :: "node list" where
  "four_headings =
     [Element (str ''h2'') [] [Text (str ''Install'')],
      Element (str ''h3'') [(str ''id'', AStr (str ''nix''))] [Text (str ''Linux'')],
      Element (str ''h2'') [] [Text (str ''Use It'')], Element (str ''h4'') [] [Text (str ''Tips'')]]"

definition angle_listing :: "node list" where
  "angle_listing =
     [Element (str ''div'') [(str ''class'', AList [str ''listingblock''])]
        [Element (str ''pre'') [] [Text (str ''foo(); <1>'')]]]"

text \<open>
  What the admonition pass makes of a titled tip laid out as the renderer writes it, and
  what the parser reads when that document is written out: the two newlines around the
  extracted title are one string then, of one newline.
\<close>

definition restyled_tip :: "node list" where
  "restyled_tip =
     [Element (str ''div'') [(str ''class'', AList [str ''admonition'', str ''tip''])]
        [Element (str ''p'') [(str ''class'', AList [str ''admonition-title''])] [Text (str ''Mind'')],
         Text [10], Text [10],
         Element (str ''div'') [(str ''class'', AList [str ''paragraph''])]
           [Text [10], Element (str ''p'') [] [Text (str ''Be careful.'')], Text [10]],
         Text [10]]]"

definition reread_tip :: "node list" where
  "reread_tip =
     [Element (str ''div'') [(str ''class'', AList [str ''admonition'', str ''tip''])]
        [Element (str ''p'') [(str ''class'', AList [str ''admonition-title''])] [Text (str ''Mind'')],
         Text [10],
         Element (str ''div'') [(str ''class'', AList [str ''paragraph''])]
           [Text [10], Element (str ''p'') [] [Text (str ''Be careful.'')], Text [10]],
         Text [10]]]"











section \<open>Properties of the slug\<close>

lemma re_sub_runs_delete: "re_sub_runs cls [] s = filter (\<lambda>c. \<not> cls c) s"
proof (induction cls "[]::pystr" s rule: re_sub_runs.induct)
  case (1 cls)
  show ?case by simp
next
  case (2 cls c cs)
  have drop: "filter (\<lambda>c. \<not> cls c) (dropWhile cls cs) = filter (\<lambda>c. \<not> cls c) cs"
    by (induction cs) auto
  show ?case using 2 by (simp add: drop)
qed

lemma collapse_in_run: "collapse True s = collapse False (dropWhile spacech s)"
  by (induction s) auto

lemma re_sub_runs_collapse: "re_sub_runs spacech [45] s = collapse False s"
proof (induction spacech "[45::nat]" s rule: re_sub_runs.induct)
  case 1
  show ?case by simp
next
  case (2 c cs)
  then show ?case by (simp add: collapse_in_run)
qed

lemma slugify_as_worded: "slugify t = slug_as_worded (strip t)"
  by (simp add: slugify_def slug_as_worded_def re_sub_runs_delete re_sub_runs_collapse str_def)

lemma strip_subset: "set (strip t) \<subseteq> set t"
proof -
  have "set (strip t) \<subseteq> set (dropWhile isspace t)"
    unfolding strip_def using set_dropWhileD by fastforce
  then show ?thesis using set_dropWhileD by fastforce
qed

lemma lower_no_wordch:
  "\<forall>c\<in>set t. \<not> wordch c \<and> c \<noteq> 304 \<and> c \<noteq> 8490 \<Longrightarrow> filter wordch (lower t) = []"
  by (induction t) (auto simp: lower_def lower_cp_def wordch_def)

lemmas slug_eval =
  slugify_def slug_as_worded_def str_def strip_def isspace_def lower_def lower_cp_def
  wordch_def spacech_def punctuation_def

text \<open>
  C5, as the code has it. The code trims the text before anything else, so the slug is
  the worded one of the trimmed text; "Getting Started, Fast!" gives
  "getting-started-fast"; and a text of punctuation marks gives the empty slug when none
  of them is an underscore or a hyphen, the two marks the slug keeps.
\<close>

theorem slugify_trims_then_slugs:
  "slugify t = slug_as_worded (strip t) \<and>
   slugify (str ''Getting Started, Fast!'') = str ''getting-started-fast'' \<and>
   ((\<forall>c\<in>set t. punctuation c \<and> c \<noteq> 95 \<and> c \<noteq> 45) \<longrightarrow> slugify t = [])"
proof (intro conjI impI)
  show "slugify t = slug_as_worded (strip t)" by (rule slugify_as_worded)
  show "slugify (str ''Getting Started, Fast!'') = str ''getting-started-fast''"
    by (simp add: slug_eval)
next
  assume punct: "\<forall>c\<in>set t. punctuation c \<and> c \<noteq> 95 \<and> c \<noteq> 45"
  have "\<forall>c\<in>set (strip t). \<not> wordch c \<and> c \<noteq> 304 \<and> c \<noteq> 8490"
  proof
    fix c assume "c \<in> set (strip t)"
    then have "c \<in> set t" using strip_subset by blast
    with punct have "punctuation c \<and> c \<noteq> 95 \<and> c \<noteq> 45" by blast
    then show "\<not> wordch c \<and> c \<noteq> 304 \<and> c \<noteq> 8490"
      by (auto simp: punctuation_def wordch_def)
  qed
  then have "filter wordch (lower (strip t)) = []" by (rule lower_no_wordch)
  then show "slugify t = []" by (simp add: slugify_as_worded slug_as_worded_def)
qed

theorem slugify_trims_then_slugs_witness:
  "list_all (\<lambda>c. punctuation c \<and> c \<noteq> 95 \<and> c \<noteq> 45) (str ''?!...'') \<and>
   slugify (str ''?!...'') = [] \<and>
   slugify (str ''  Set_Up  '') = slug_as_worded (str ''Set_Up'') \<and>
   slugify (str ''  Set_Up  '') = str ''set-up''"
proof -
  have p: "\<forall>c\<in>set (str ''?!...''). punctuation c \<and> c \<noteq> 95 \<and> c \<noteq> 45"
    by (simp add: str_def punctuation_def)
  have s: "strip (str ''  Set_Up  '') = str ''Set_Up''"
    by (simp add: str_def strip_def isspace_def)
  have e: "slug_as_worded (str ''Set_Up'') = str ''set-up''"
    by (simp add: slug_eval)
  from slugify_trims_then_slugs [of "str ''?!...''"] p
  have "slugify (str ''?!...'') = []" by blast
  moreover from slugify_trims_then_slugs [of "str ''  Set_Up  ''"] s
  have "slugify (str ''  Set_Up  '') = slug_as_worded (str ''Set_Up'')" by simp
  ultimately show ?thesis using p e by (simp add: list_all_iff)
qed

text \<open>
  C5 as it is stated fails twice. The text " a" has the slug "a", while lowercasing,
  deleting and collapsing alone give "-a"; and the text "_-", which is punctuation only,
  has the slug "--", not the empty one.
\<close>

theorem slugify_as_stated_counterexample:
  "slugify (str '' a'') = str ''a'' \<and> slug_as_worded (str '' a'') = str ''-a'' \<and>
   slugify (str '' a'') \<noteq> slug_as_worded (str '' a'') \<and>
   list_all punctuation (str ''_-'') \<and> slugify (str ''_-'') = str ''--'' \<and>
   slugify (str ''_-'') \<noteq> []"
  by (simp add: slug_eval)

section \<open>Properties of the renderer call\<close>

lemma contains_middle: "contains (a @ x @ b) x"
proof (induction a)
  case Nil
  show ?case
  proof (cases "x @ b")
    case Nil
    then show ?thesis by simp
  next
    case (Cons c cs)
    have "prefix x (x @ b)" by simp
    with Cons show ?thesis by simp
  qed
next
  case (Cons c a)
  then show ?case by simp
qed

lemma placeholder_nonempty: "placeholder msg \<noteq> []"
  by (simp add: placeholder_def str_def)

text \<open>
  C3. When the command is not found, or the renderer exits with a non-zero status,
  \<open>_run_asciidoctor\<close> raises \<open>SystemExit\<close> with the message if \<open>fail_on_error\<close> is
  set, and otherwise returns the message, escaped, inside a \<open>pre\<close> element, with empty
  metadata. The fragment is not empty and contains the escaped message; the first
  message names the command, the second contains what the renderer wrote to its standard
  error.
\<close>

theorem run_asciidoctor_failure:
  assumes "run (renderer_args cfg src) = FileNotFoundError \<and> msg = not_found_msg cfg \<or>
           run (renderer_args cfg src) = CalledProcessError stderr \<and> msg = failed_msg src stderr"
  shows "run_asciidoctor L cfg run src =
           (if fail cfg then Inl (SystemExit msg) else Inr (placeholder msg, [])) \<and>
         placeholder msg \<noteq> [] \<and> contains (placeholder msg) (escape msg) \<and>
         contains (not_found_msg cfg) (cmd cfg) \<and> contains (failed_msg src stderr) stderr"
proof (intro conjI)
  show "run_asciidoctor L cfg run src =
           (if fail cfg then Inl (SystemExit msg) else Inr (placeholder msg, []))"
    using assms by (auto simp: run_asciidoctor_def)
  show "placeholder msg \<noteq> []" by (rule placeholder_nonempty)
  show "contains (placeholder msg) (escape msg)"
    unfolding placeholder_def by (rule contains_middle)
  have "contains ((str ''Asciidoctor not found: '' @ [39]) @ cmd cfg @
          ([39] @ str ''. Install with: gem install asciidoctor'')) (cmd cfg)"
    by (rule contains_middle)
  then show "contains (not_found_msg cfg) (cmd cfg)" by (simp add: not_found_msg_def)
  have "contains ((str ''Asciidoctor failed for '' @ src @ str '':'' @ [10]) @ stderr @ []) stderr"
    by (rule contains_middle)
  then show "contains (failed_msg src stderr) stderr" by (simp add: failed_msg_def)
qed

theorem run_asciidoctor_failure_witness:
  "run_asciidoctor example_library example_config (\<lambda>args. FileNotFoundError) example_path =
     Inr (str ''<pre>Asciidoctor not found: '' @ [39] @ str ''asciidoctor'' @ [39] @
          str ''. Install with: gem install asciidoctor</pre>'', []) \<and>
   run_asciidoctor example_library (example_config\<lparr>fail := True\<rparr>)
       (\<lambda>args. CalledProcessError (str ''a < b'')) example_path =
     Inl (SystemExit (str ''Asciidoctor failed for /site/docs/a.adoc:'' @ [10] @ str ''a < b'')) \<and>
   run_asciidoctor example_library example_config
       (\<lambda>args. CalledProcessError (str ''a < b'')) example_path =
     Inr (str ''<pre>Asciidoctor failed for /site/docs/a.adoc:'' @ [10] @ str ''a &lt; b</pre>'', [])"
  using
    run_asciidoctor_failure [of "\<lambda>args. FileNotFoundError" example_config example_path
      "not_found_msg example_config" "[]" example_library]
    run_asciidoctor_failure [of "\<lambda>args. CalledProcessError (str ''a < b'')"
      "example_config\<lparr>fail := True\<rparr>" example_path
      "failed_msg example_path (str ''a < b'')" "str ''a < b''" example_library]
    run_asciidoctor_failure [of "\<lambda>args. CalledProcessError (str ''a < b'')"
      example_config example_path
      "failed_msg example_path (str ''a < b'')" "str ''a < b''" example_library]
  by (simp add: example_config_def example_path_def not_found_msg_def failed_msg_def
        placeholder_def escape_def replace_def str_def)

section \<open>Properties of the render cache\<close>

lemma render_adoc_cached_hit:
  "files w src = Some (mtime, sha1) \<Longrightarrow> cache p src = Some (mtime, sha1, r) \<Longrightarrow>
   render_adoc_cached L cfg w p src = (Inr r, p)"
  by (simp add: render_adoc_cached_def)

lemma render_adoc_cached_miss:
  "files w src = Some (mtime, sha1) \<Longrightarrow> \<nexists>r. cache p src = Some (mtime, sha1, r) \<Longrightarrow>
   render_adoc_cached L cfg w p src = render_fresh L cfg w p src mtime sha1"
  by (auto simp: render_adoc_cached_def split: option.splits)

lemma render_fresh_spawned:
  "spawned (snd (render_fresh L cfg w p src mtime sha1)) = spawned p @ [renderer_args cfg src]"
  by (simp add: render_fresh_def Let_def split: sum.splits prod.splits)

lemmas parse_eval =
  fragment_parser_def str_def tag_tokens_def start_tokens_def tagch_def keych_def isspace_def attr_value_def
  after_name_def after_equals_def quoted_def quoted_value_def after_quoted_def bare_value_def
  after_bare_def build_attrs_def ascii_lower_def void_tags_def data_string_def
  preserves_space_def ascii_space_def

lemmas toc_eval =
  build_toc_def build_toc_soup_def toc_headings_def find_all_def descendants_def heading_tags_def
  in_class_or_empty_def get_attr_def toc_round_def level_of_def heading_id_def get_text_def
  append_child_def

lemma placeholder_toc:
  "build_toc example_library (placeholder (not_found_msg example_config)) = \<lparr>links = [], items = []\<rparr>"
  by (simp add: example_library_def example_config_def toc_eval not_found_msg_def placeholder_def
        escape_def replace_def parse_eval)

text \<open>
  C1, as the code has it. For a source file that exists: when the cache holds an entry
  for the path with the file's modification time and digest, the stored document is
  returned and nothing else happens; the renderer is not run if and only if there is
  such an entry; and otherwise the renderer is run once and, if \<open>_run_asciidoctor\<close>
  returns (a page, or a placeholder when errors are not fatal), a fresh document is
  stored under the path and returned, while if it raises (\<open>SystemExit\<close> when errors
  are fatal) the exception leaves the call and the cache stays as it was.
\<close>

theorem render_adoc_cached_hit_or_miss:
  assumes present: "files w src = Some (mtime, sha1)"
  shows "(\<forall>r. cache p src = Some (mtime, sha1, r) \<longrightarrow> render_adoc_cached L cfg w p src = (Inr r, p)) \<and>
         ((\<exists>r. cache p src = Some (mtime, sha1, r)) \<longleftrightarrow>
            spawned (snd (render_adoc_cached L cfg w p src)) = spawned p) \<and>
         ((\<nexists>r. cache p src = Some (mtime, sha1, r)) \<longrightarrow>
            spawned (snd (render_adoc_cached L cfg w p src)) = spawned p @ [renderer_args cfg src] \<and>
            (case run_asciidoctor L cfg (subprocess_run w) src of
               Inr (h, m) \<Rightarrow>
                 fst (render_adoc_cached L cfg w p src) = Inr \<lparr>html = h, toc = build_toc L h, meta = m\<rparr> \<and>
                 cache (snd (render_adoc_cached L cfg w p src)) =
                   (cache p)(src \<mapsto> (mtime, sha1, \<lparr>html = h, toc = build_toc L h, meta = m\<rparr>))
             | Inl e \<Rightarrow>
                 fst (render_adoc_cached L cfg w p src) = Inl e \<and>
                 cache (snd (render_adoc_cached L cfg w p src)) = cache p))"
proof (intro conjI allI impI)
  fix r assume "cache p src = Some (mtime, sha1, r)"
  with present show "render_adoc_cached L cfg w p src = (Inr r, p)"
    by (rule render_adoc_cached_hit)
next
  show "(\<exists>r. cache p src = Some (mtime, sha1, r)) \<longleftrightarrow>
          spawned (snd (render_adoc_cached L cfg w p src)) = spawned p"
  proof (cases "\<exists>r. cache p src = Some (mtime, sha1, r)")
    case True
    then show ?thesis using render_adoc_cached_hit [OF present] by auto
  next
    case False
    then show ?thesis
      using render_adoc_cached_miss [OF present] render_fresh_spawned [of L cfg w p src mtime sha1]
      by simp
  qed
next
  assume m: "\<nexists>r. cache p src = Some (mtime, sha1, r)"
  show "spawned (snd (render_adoc_cached L cfg w p src)) = spawned p @ [renderer_args cfg src]"
    using render_adoc_cached_miss [OF present m] render_fresh_spawned by simp
  show "case run_asciidoctor L cfg (subprocess_run w) src of
             Inr (h, m) \<Rightarrow>
               fst (render_adoc_cached L cfg w p src) = Inr \<lparr>html = h, toc = build_toc L h, meta = m\<rparr> \<and>
               cache (snd (render_adoc_cached L cfg w p src)) =
                 (cache p)(src \<mapsto> (mtime, sha1, \<lparr>html = h, toc = build_toc L h, meta = m\<rparr>))
           | Inl e \<Rightarrow>
               fst (render_adoc_cached L cfg w p src) = Inl e \<and>
               cache (snd (render_adoc_cached L cfg w p src)) = cache p"
    using render_adoc_cached_miss [OF present m]
    by (simp add: render_fresh_def Let_def split: sum.splits prod.splits)
qed

text \<open>
  The theorem at work: a plugin whose cache holds the page with modification time 100
  and digest "ab" returns it untouched for that file; the same file with the time 101,
  or with the digest "cd", makes it run the renderer.
\<close>

theorem render_adoc_cached_hit_or_miss_witness:
  "render_adoc_cached example_library example_config
       (example_world 100 (str ''ab'') (CompletedProcess (str ''<h2>Intro</h2>'')))
       (new_plugin\<lparr>cache := [example_path \<mapsto> (100, str ''ab'', example_rendered)]\<rparr>) example_path =
     (Inr example_rendered, new_plugin\<lparr>cache := [example_path \<mapsto> (100, str ''ab'', example_rendered)]\<rparr>) \<and>
   spawned (snd (render_adoc_cached example_library example_config
       (example_world 101 (str ''ab'') (CompletedProcess (str ''<h2>Intro</h2>'')))
       (new_plugin\<lparr>cache := [example_path \<mapsto> (100, str ''ab'', example_rendered)]\<rparr>) example_path)) =
     [renderer_args example_config example_path] \<and>
   spawned (snd (render_adoc_cached example_library example_config
       (example_world 100 (str ''cd'') (CompletedProcess (str ''<h2>Intro</h2>'')))
       (new_plugin\<lparr>cache := [example_path \<mapsto> (100, str ''ab'', example_rendered)]\<rparr>) example_path)) =
     [renderer_args example_config example_path]"
  using
    render_adoc_cached_hit_or_miss [of "example_world 100 (str ''ab'') (CompletedProcess (str ''<h2>Intro</h2>''))"
      example_path 100 "str ''ab''"
      "new_plugin\<lparr>cache := [example_path \<mapsto> (100, str ''ab'', example_rendered)]\<rparr>"
      example_library example_config]
    render_adoc_cached_hit_or_miss [of "example_world 101 (str ''ab'') (CompletedProcess (str ''<h2>Intro</h2>''))"
      example_path 101 "str ''ab''"
      "new_plugin\<lparr>cache := [example_path \<mapsto> (100, str ''ab'', example_rendered)]\<rparr>"
      example_library example_config]
    render_adoc_cached_hit_or_miss [of "example_world 100 (str ''cd'') (CompletedProcess (str ''<h2>Intro</h2>''))"
      example_path 100 "str ''cd''"
      "new_plugin\<lparr>cache := [example_path \<mapsto> (100, str ''ab'', example_rendered)]\<rparr>"
      example_library example_config]
  by (simp add: example_world_def new_plugin_def str_def)

text \<open>
  C1 as it is stated fails where the render stops the build: with \<open>fail_on_error\<close> set
  and the command missing, a call for a file that is not in the cache returns no
  document and stores none.
\<close>

theorem render_adoc_cached_fatal_counterexample:
  "cache new_plugin example_path = None \<and>
   fst (render_adoc_cached example_library (example_config\<lparr>fail := True\<rparr>)
          (example_world 100 (str ''ab'') FileNotFoundError) new_plugin example_path) =
     Inl (SystemExit (not_found_msg example_config)) \<and>
   cache (snd (render_adoc_cached example_library (example_config\<lparr>fail := True\<rparr>)
          (example_world 100 (str ''ab'') FileNotFoundError) new_plugin example_path)) example_path = None"
  by (simp add: render_adoc_cached_def render_fresh_def example_world_def new_plugin_def
        example_config_def run_asciidoctor_def not_found_msg_def)

text \<open>
  C2, as the code has it. \<open>_render_adoc_cached\<close> stores whatever \<open>_run_asciidoctor\<close>
  returns, so the placeholder of a failure that is not fatal is stored like a page, and
  the next call for the file, its modification time and digest unchanged, returns the
  placeholder from the cache and does not run the renderer.
\<close>

theorem placeholder_is_cached:
  assumes "files w src = Some (mtime, sha1)"
    and "\<nexists>r. cache p src = Some (mtime, sha1, r)"
    and "\<not> fail cfg"
    and "subprocess_run w (renderer_args cfg src) = FileNotFoundError \<and> msg = not_found_msg cfg \<or>
         subprocess_run w (renderer_args cfg src) = CalledProcessError stderr \<and> msg = failed_msg src stderr"
    and "files w' src = Some (mtime, sha1)"
    and "r = \<lparr>html = placeholder msg, toc = build_toc L (placeholder msg), meta = []\<rparr>"
    and "p' = p\<lparr>spawned := spawned p @ [renderer_args cfg src],
                 cache := (cache p)(src \<mapsto> (mtime, sha1, r))\<rparr>"
  shows "render_adoc_cached L cfg w p src = (Inr r, p') \<and>
         render_adoc_cached L cfg w' p' src = (Inr r, p')"
proof
  have "run_asciidoctor L cfg (subprocess_run w) src = Inr (placeholder msg, [])"
    using assms(3,4) by (auto simp: run_asciidoctor_def)
  then show "render_adoc_cached L cfg w p src = (Inr r, p')"
    using render_adoc_cached_miss [OF assms(1,2)] assms(6,7)
    by (simp add: render_fresh_def Let_def)
  have "cache p' src = Some (mtime, sha1, r)" using assms(7) by simp
  with assms(5) show "render_adoc_cached L cfg w' p' src = (Inr r, p')"
    by (rule render_adoc_cached_hit)
qed

theorem placeholder_is_cached_witness:
  "render_adoc_cached example_library example_config
       (example_world 100 (str ''ab'') FileNotFoundError) new_plugin example_path =
     (Inr placeholder_rendered,
      new_plugin\<lparr>spawned := [renderer_args example_config example_path],
                  cache := [example_path \<mapsto> (100, str ''ab'', placeholder_rendered)]\<rparr>) \<and>
   render_adoc_cached example_library example_config
       (example_world 100 (str ''ab'') (CompletedProcess (str ''<h2>Intro</h2>'')))
       (new_plugin\<lparr>spawned := [renderer_args example_config example_path],
                  cache := [example_path \<mapsto> (100, str ''ab'', placeholder_rendered)]\<rparr>) example_path =
     (Inr placeholder_rendered,
      new_plugin\<lparr>spawned := [renderer_args example_config example_path],
                  cache := [example_path \<mapsto> (100, str ''ab'', placeholder_rendered)]\<rparr>)"
  using placeholder_is_cached [of "example_world 100 (str ''ab'') FileNotFoundError" example_path
      100 "str ''ab''" new_plugin example_config "not_found_msg example_config" "[]"
      "example_world 100 (str ''ab'') (CompletedProcess (str ''<h2>Intro</h2>''))"
      placeholder_rendered example_library
      "new_plugin\<lparr>spawned := [renderer_args example_config example_path],
                  cache := [example_path \<mapsto> (100, str ''ab'', placeholder_rendered)]\<rparr>"]
    placeholder_toc
  by (simp add: example_world_def new_plugin_def placeholder_rendered_def example_config_def)

text \<open>
  C2 as it is stated fails: after a failure that is not fatal the cache holds the
  placeholder, and a second call for the unchanged file, in a world where the renderer
  would now succeed, returns that placeholder and leaves the log of commands at the one
  entry of the first call.
\<close>

theorem placeholder_not_retried_counterexample:
  "cache (snd (render_adoc_cached example_library example_config
          (example_world 100 (str ''ab'') FileNotFoundError) new_plugin example_path)) example_path =
     Some (100, str ''ab'', placeholder_rendered) \<and>
   fst (render_adoc_cached example_library example_config
          (example_world 100 (str ''ab'') (CompletedProcess (str ''<h2>Intro</h2>'')))
          (snd (render_adoc_cached example_library example_config
             (example_world 100 (str ''ab'') FileNotFoundError) new_plugin example_path)) example_path) =
     Inr placeholder_rendered \<and>
   spawned (snd (render_adoc_cached example_library example_config
          (example_world 100 (str ''ab'') (CompletedProcess (str ''<h2>Intro</h2>'')))
          (snd (render_adoc_cached example_library example_config
             (example_world 100 (str ''ab'') FileNotFoundError) new_plugin example_path)) example_path)) =
     [renderer_args example_config example_path]"
proof -
  have first: "render_adoc_cached example_library example_config
       (example_world 100 (str ''ab'') FileNotFoundError) new_plugin example_path =
     (Inr placeholder_rendered,
      new_plugin\<lparr>spawned := [renderer_args example_config example_path],
                  cache := [example_path \<mapsto> (100, str ''ab'', placeholder_rendered)]\<rparr>)"
    using placeholder_toc
    by (simp add: render_adoc_cached_def render_fresh_def run_asciidoctor_def example_world_def
          new_plugin_def placeholder_rendered_def example_config_def Let_def)
  show ?thesis
    unfolding first by (simp add: render_adoc_cached_def example_world_def)
qed

section \<open>Properties of the table of contents\<close>

lemma level_of_h234:
  "level_of (Element (str ''h2'') a c) = 2"
  "level_of (Element (str ''h3'') a c) = 3"
  "level_of (Element (str ''h4'') a c) = 4"
  by (simp_all add: level_of_def str_def)

lemmas slug_eval_code =
  slugify_def str_def strip_def isspace_def lower_def lower_cp_def wordch_def spacech_def

lemma toc_headings_title:
  "toc_headings (Element (str ''h1'') [(str ''class'', AList [str ''sect0''])] [Text t0] # rest) =
   toc_headings rest"
  by (simp add: toc_headings_def find_all_def descendants_def heading_tags_def
        in_class_or_empty_def get_attr_def str_def)

text \<open>
  C4. \<open>_build_toc\<close> scans the headings once, from left to right, with the stack of
  \<open>toc_round\<close>. For a document title (an \<open>h1\<close> with the class \<open>sect0\<close>, left out)
  followed by markup with four headings, of the levels 2, 3, 2 and 4, whatever their
  texts, their attributes and the markup around them, the forest has two roots, the two
  headings of level 2; the first has one child, the heading of level 3, and the second
  has one child, the heading of level 4.
\<close>

theorem build_toc_levels_2_3_2_4:
  assumes "toc_headings rest = [x1, x2, x3, x4]"
    and "map level_of [x1, x2, x3, x4] = [2, 3, 2, 4]"
  shows "forest (build_toc_soup
           (Element (str ''h1'') [(str ''class'', AList [str ''sect0''])] [Text t0] # rest)) =
   Some [AnchorLink (get_text x1) (heading_id x1) [AnchorLink (get_text x2) (heading_id x2) []],
         AnchorLink (get_text x3) (heading_id x3) [AnchorLink (get_text x4) (heading_id x4) []]]"
  using assms(2) unfolding build_toc_soup_def toc_headings_title assms(1)
  by (simp add: toc_round_def append_child_def forest_def Let_def numeral_eq_Suc)

text \<open>The same through the parser, with the slugs the headings without \<open>id\<close> get.\<close>

theorem build_toc_levels_2_3_2_4_witness:
  "html_parser example_library
      (str ''<h1 class=\"sect0\">Guide</h1><h2>Install</h2><h3 id=\"nix\">Linux</h3><h2>Use It</h2><h4>Tips</h4>'') =
     Element (str ''h1'') [(str ''class'', AList [str ''sect0''])] [Text (str ''Guide'')] # four_headings \<and>
   toc_headings four_headings = four_headings \<and>
   map level_of four_headings = [2, 3, 2, 4] \<and>
   forest (build_toc example_library
      (str ''<h1 class=\"sect0\">Guide</h1><h2>Install</h2><h3 id=\"nix\">Linux</h3><h2>Use It</h2><h4>Tips</h4>'')) =
   Some [AnchorLink (str ''Install'') (AStr (str ''install''))
           [AnchorLink (str ''Linux'') (AStr (str ''nix'')) []],
         AnchorLink (str ''Use It'') (AStr (str ''use-it''))
           [AnchorLink (str ''Tips'') (AStr (str ''tips'')) []]]"
proof -
  have p: "html_parser example_library
      (str ''<h1 class=\"sect0\">Guide</h1><h2>Install</h2><h3 id=\"nix\">Linux</h3><h2>Use It</h2><h4>Tips</h4>'') =
     Element (str ''h1'') [(str ''class'', AList [str ''sect0''])] [Text (str ''Guide'')] # four_headings"
    by (simp add: example_library_def parse_eval four_headings_def)
  have hs: "toc_headings four_headings =
     [Element (str ''h2'') [] [Text (str ''Install'')],
      Element (str ''h3'') [(str ''id'', AStr (str ''nix''))] [Text (str ''Linux'')],
      Element (str ''h2'') [] [Text (str ''Use It'')], Element (str ''h4'') [] [Text (str ''Tips'')]]"
    by (simp add: four_headings_def toc_headings_def find_all_def descendants_def heading_tags_def
          in_class_or_empty_def get_attr_def str_def)
  have lv: "map level_of
     [Element (str ''h2'') [] [Text (str ''Install'')],
      Element (str ''h3'') [(str ''id'', AStr (str ''nix''))] [Text (str ''Linux'')],
      Element (str ''h2'') [] [Text (str ''Use It'')], Element (str ''h4'') [] [Text (str ''Tips'')]] =
     [2, 3, 2, 4]"
    by (simp add: level_of_h234)
  have f: "forest (build_toc example_library
      (str ''<h1 class=\"sect0\">Guide</h1><h2>Install</h2><h3 id=\"nix\">Linux</h3><h2>Use It</h2><h4>Tips</h4>'')) =
   Some [AnchorLink (str ''Install'') (AStr (str ''install''))
           [AnchorLink (str ''Linux'') (AStr (str ''nix'')) []],
         AnchorLink (str ''Use It'') (AStr (str ''use-it''))
           [AnchorLink (str ''Tips'') (AStr (str ''tips'')) []]]"
    unfolding build_toc_def p
    using build_toc_levels_2_3_2_4 [OF hs lv, of "str ''Guide''"]
    by (simp add: heading_id_def get_text_def get_attr_def slug_eval_code)
  from hs have hs': "toc_headings four_headings = four_headings" by (simp add: four_headings_def)
  from lv have lv': "map level_of four_headings = [2, 3, 2, 4]" by (simp only: four_headings_def)
  from p hs' lv' f show ?thesis by (intro conjI)
qed

section \<open>Properties of the page metadata\<close>

lemmas meta_eval =
  extract_meta_from_html_def extract_meta_soup_def find_first_def find_all_def descendants_def
  attr_matches_def get_attr_def get_text_def strip_def

text \<open>
  C9, as the code has it. The title is the text of the first \<open>h1\<close> with the class
  \<open>sect0\<close>, else of the first \<open>h1\<close>, else of the first \<open>title\<close> element, and there is
  no title key when the document has none of them. The description is the \<open>content\<close> of
  the first \<open>meta\<close> element named \<open>description\<close> when that value is not empty, and
  there is no description key otherwise. The mapping has no other key.
\<close>

theorem extract_meta_precedence:
  "map_of (extract_meta_from_html L markup) (str ''title'') =
     (case find_first (\<lambda>n. tag_of n = str ''h1'' \<and> attr_matches (str ''class'') (str ''sect0'') n)
             (html_parser L markup) of
        Some e \<Rightarrow> Some (AStr (get_text e))
      | None \<Rightarrow>
          (case find_first (\<lambda>n. tag_of n = str ''h1'') (html_parser L markup) of
             Some e \<Rightarrow> Some (AStr (get_text e))
           | None \<Rightarrow>
               (case find_first (\<lambda>n. tag_of n = str ''title'') (html_parser L markup) of
                  Some e \<Rightarrow> Some (AStr (get_text e))
                | None \<Rightarrow> None))) \<and>
   map_of (extract_meta_from_html L markup) (str ''description'') =
     (case find_first (\<lambda>n. tag_of n = str ''meta'' \<and> attr_matches (str ''name'') (str ''description'') n)
             (html_parser L markup) of
        None \<Rightarrow> None
      | Some d \<Rightarrow>
          (case get_attr d (str ''content'') of
             None \<Rightarrow> None
           | Some c \<Rightarrow> if truthy c then Some c else None)) \<and>
   fst ` set (extract_meta_from_html L markup) \<subseteq> {str ''title'', str ''description''}"
  by (simp add: extract_meta_from_html_def extract_meta_soup_def Let_def str_def split: option.splits)

theorem extract_meta_precedence_witness:
  "map_of (extract_meta_from_html example_library
      (str ''<h1>First</h1><h1 class=\"sect0\">Doc Title</h1><meta name=\"description\" content=\"About\">''))
      (str ''title'') = Some (AStr (str ''Doc Title'')) \<and>
   map_of (extract_meta_from_html example_library
      (str ''<h1>First</h1><h1 class=\"sect0\">Doc Title</h1><meta name=\"description\" content=\"About\">''))
      (str ''description'') = Some (AStr (str ''About'')) \<and>
   map_of (extract_meta_from_html example_library
      (str ''<p>No heading</p><meta name=\"description\" content=\"\">'')) (str ''title'') = None \<and>
   map_of (extract_meta_from_html example_library
      (str ''<p>No heading</p><meta name=\"description\" content=\"\">'')) (str ''description'') = None"
proof -
  have p1: "html_parser example_library
      (str ''<h1>First</h1><h1 class=\"sect0\">Doc Title</h1><meta name=\"description\" content=\"About\">'') =
    [Element (str ''h1'') [] [Text (str ''First'')],
     Element (str ''h1'') [(str ''class'', AList [str ''sect0''])] [Text (str ''Doc Title'')],
     Element (str ''meta'') [(str ''name'', AStr (str ''description'')), (str ''content'', AStr (str ''About''))] []]"
    by (simp add: example_library_def parse_eval)
  have p2: "html_parser example_library (str ''<p>No heading</p><meta name=\"description\" content=\"\">'') =
    [Element (str ''p'') [] [Text (str ''No heading'')],
     Element (str ''meta'') [(str ''name'', AStr (str ''description'')), (str ''content'', AStr [])] []]"
    by (simp add: example_library_def parse_eval)
  show ?thesis
    using
      extract_meta_precedence [of example_library
        "str ''<h1>First</h1><h1 class=\"sect0\">Doc Title</h1><meta name=\"description\" content=\"About\">''"]
      extract_meta_precedence [of example_library
        "str ''<p>No heading</p><meta name=\"description\" content=\"\">''"]
    unfolding p1 p2
    by (simp add: find_first_def find_all_def descendants_def attr_matches_def get_attr_def
          get_text_def strip_def str_def isspace_def)
qed

text \<open>
  C9 as it is stated fails where the first heading is not an \<open>h1\<close>. In
  \<open><h2>Intro</h2><h1>Main</h1>\<close> no heading carries the marker and the first heading
  element is the \<open>h2\<close>, yet the title is "Main"; and \<open><h2>Intro</h2>\<close> alone, which
  has a first heading element, gets no title at all.
\<close>

theorem extract_meta_first_heading_counterexample:
  "title_source_as_worded (fragment_parser (str ''<h2>Intro</h2><h1>Main</h1>'')) =
     Some (Element (str ''h2'') [] [Text (str ''Intro'')]) \<and>
   get_text (Element (str ''h2'') [] [Text (str ''Intro'')]) = str ''Intro'' \<and>
   extract_meta_from_html example_library (str ''<h2>Intro</h2><h1>Main</h1>'') =
     [(str ''title'', AStr (str ''Main''))] \<and>
   title_source_as_worded (fragment_parser (str ''<h2>Intro</h2>'')) =
     Some (Element (str ''h2'') [] [Text (str ''Intro'')]) \<and>
   extract_meta_from_html example_library (str ''<h2>Intro</h2>'') = []"
proof -
  have p1: "fragment_parser (str ''<h2>Intro</h2><h1>Main</h1>'') =
     [Element (str ''h2'') [] [Text (str ''Intro'')], Element (str ''h1'') [] [Text (str ''Main'')]]"
    by (simp add: parse_eval)
  have p2: "fragment_parser (str ''<h2>Intro</h2>'') = [Element (str ''h2'') [] [Text (str ''Intro'')]]"
    by (simp add: parse_eval)
  show ?thesis
    unfolding extract_meta_from_html_def example_library_def library.simps p1 p2
    by (simp add: title_source_as_worded_def extract_meta_soup_def find_first_def find_all_def
          descendants_def attr_matches_def get_attr_def get_text_def strip_def str_def isspace_def
          heading_tags_def)
qed

section \<open>Properties of the callout pass\<close>

lemmas decode_eval =
  decode_contents_def entity_sub_def decode_attrs_def sorted_attrs_def quoted_attribute_value_def void_tags_def

lemmas colist_eval =
  callout_table_to_ol_def callout_table_to_ol_soup_def colist_round_def is_colist_def is_tag_def
  has_class_def classes_of_def get_attr_def callout_ol_def row_round_def find_all_def
  descendants_def decode_contents_def entity_sub_def decode_attrs_def sorted_attrs_def quoted_attribute_value_def



lemma node_at_Nil [simp]: "node_at [] p = None"
  by (induction "[]::node list" p rule: node_at.induct) auto


lemma length_replace_at [simp]: "length (replace_at ns q new) = length ns"
  by (induction ns q new rule: replace_at.induct) (auto split: node.splits)









section \<open>Properties of the marker pass\<close>

lemmas strip_eval =
  strip_conum_from_code_def strip_conum_soup_def has_class_def classes_of_def get_attr_def
  neutralize_def conum_fallback_def conum_marker_def decode_contents_def entity_sub_def
  decode_attrs_def sorted_attrs_def quoted_attribute_value_def conum_match_def blank_def digit_def closing_def

text \<open>
  C7, at a listing whose text is the line \<open>foo(); <1>\<close>. The pattern is applied to the
  written-out content of the \<open>pre\<close>, in which the text reads \<open>foo(); &lt;1&gt;\<close>, and
  finds no match: the pass returns the markup as it came, and the text of the listing
  still ends in \<open><1>\<close>.
\<close>

theorem strip_conum_keeps_angle_marker:
  "fragment_parser (str ''<div class=\"listingblock\"><pre>foo(); &lt;1&gt;</pre></div>'') = angle_listing \<and>
   strip_conum_soup example_library angle_listing = angle_listing \<and>
   strip_conum_from_code example_library
       (str ''<div class=\"listingblock\"><pre>foo(); &lt;1&gt;</pre></div>'') =
     str ''<div class=\"listingblock\"><pre>foo(); &lt;1&gt;</pre></div>'' \<and>
   get_text (hd angle_listing) = str ''foo(); <1>'' \<and>
   contains (get_text (hd angle_listing)) (str ''<1>'')"
proof -
  have p: "fragment_parser (str ''<div class=\"listingblock\"><pre>foo(); &lt;1&gt;</pre></div>'') =
      angle_listing"
    by (simp add: parse_eval angle_listing_def)
  have s: "strip_conum_soup example_library angle_listing = angle_listing"
    by (simp add: angle_listing_def strip_eval str_def)
  have d: "decode_contents angle_listing =
      str ''<div class=\"listingblock\"><pre>foo(); &lt;1&gt;</pre></div>''"
    by (simp add: angle_listing_def decode_eval str_def)
  have g: "get_text (hd angle_listing) = str ''foo(); <1>''"
    by (simp add: angle_listing_def get_text_def strip_def isspace_def str_def)
  have c: "contains (str ''foo(); <1>'') (str ''<1>'')" by (simp add: str_def)
  show ?thesis
    using p s d g c by (simp add: strip_conum_from_code_def example_library_def)
qed

section \<open>Properties of the admonition pass and of the three passes together\<close>

lemmas admon_eval =
  admonitions_to_material_def admonitions_soup_def is_admonition_block_def is_tag_def
  has_class_def classes_of_def get_attr_def new_admonition_def title_text_def title_of_def
  moved_def left_behind_def content_split_def title_split_def admonition_kind_def class_set_def
  capitalize_def kinds_def lower_def lower_cp_def get_text_def strip_def decode_contents_def
  entity_sub_def decode_attrs_def sorted_attrs_def quoted_attribute_value_def



lemma is_admonition_block_children:
  "is_admonition_block (Element t a cs) = is_admonition_block (Element t a cs')"
  by (simp add: is_admonition_block_def is_tag_def has_class_def classes_of_def get_attr_def)

lemma admon_plain: "\<not> list_ex is_admonition_block (elements n) \<Longrightarrow> admon L n = (False, n)"
proof (induction n)
  case (Element t a cs)
  then have self: "\<not> is_admonition_block (Element t a cs)"
    and kids: "\<And>c. c \<in> set cs \<Longrightarrow> admon L c = (False, c)"
    by (auto simp: list_ex_iff)
  from kids have "map (\<lambda>n. snd (admon L n)) cs = cs" by (simp add: map_idI)
  moreover from kids have "\<not> list_ex (\<lambda>n. fst (admon L n)) cs" by (simp add: list_ex_iff)
  ultimately show ?case using self by simp
qed simp_all

lemma kind_in_kinds:
  "set (kinds_order L) \<subseteq> set kinds \<Longrightarrow> admonition_kind L blk \<in> set kinds"
proof -
  assume k: "set (kinds_order L) \<subseteq> set kinds"
  show ?thesis
  proof (cases "filter (\<lambda>k. k \<in> set (class_set blk)) (kinds_order L)")
    case Nil
    then show ?thesis by (simp add: admonition_kind_def kinds_def)
  next
    case (Cons x xs)
    then have "x \<in> set (filter (\<lambda>k. k \<in> set (class_set blk)) (kinds_order L))" by simp
    then have "x \<in> set (kinds_order L)" by simp
    with k Cons show ?thesis by (auto simp: admonition_kind_def)
  qed
qed

lemma new_admonition_no_block:
  assumes "set (kinds_order L) \<subseteq> set kinds"
  shows "\<not> is_admonition_block (new_admonition L blk body)"
proof -
  have "admonition_kind L blk \<noteq> str ''admonitionblock''"
    using kind_in_kinds [OF assms, of blk] by (auto simp: kinds_def str_def)
  then show ?thesis
    by (auto simp: new_admonition_def is_admonition_block_def is_tag_def has_class_def classes_of_def
          get_attr_def str_def)
qed

lemma admon_clean:
  "set (kinds_order L) \<subseteq> set kinds \<Longrightarrow>
   \<not> list_ex is_admonition_block (elements (snd (admon L n)))"
proof (induction L n rule: admon.induct)
  case (1 L t a cs)
  note kinds_ok = "1.prems"
  show ?case
  proof (cases "is_admonition_block (Element t a cs)")
    case True
    have body: "\<not> list_ex is_admonition_block
        (concat (map elements (map (\<lambda>n. snd (admon L n)) (moved cs))))"
      using "1.IH"(3) [OF True _ kinds_ok] by (auto simp: list_ex_iff)
    have p: "\<not> is_admonition_block
        (Element (str ''p'') [(str ''class'', AList [str ''admonition-title''])] [Text (title_text L (Element t a cs))])"
      by (simp add: is_admonition_block_def is_tag_def str_def)
    have top: "\<not> is_admonition_block
        (new_admonition L (Element t a cs) (map (\<lambda>n. snd (admon L n)) (moved cs)))"
      by (rule new_admonition_no_block [OF kinds_ok])
    have "elements (new_admonition L (Element t a cs) (map (\<lambda>n. snd (admon L n)) (moved cs))) =
        new_admonition L (Element t a cs) (map (\<lambda>n. snd (admon L n)) (moved cs)) #
        Element (str ''p'') [(str ''class'', AList [str ''admonition-title''])] [Text (title_text L (Element t a cs))] #
        concat (map elements (map (\<lambda>n. snd (admon L n)) (moved cs)))"
      by (simp add: new_admonition_def)
    with True body p top show ?thesis by simp
  next
    case False
    have "\<not> list_ex is_admonition_block (concat (map elements (map (\<lambda>n. snd (admon L n)) cs)))"
      using "1.IH"(5) [OF False _ kinds_ok] by (auto simp: list_ex_iff)
    with False is_admonition_block_children [of t a cs] show ?thesis by auto
  qed
qed simp_all

lemma admonitions_soup_plain:
  "\<not> list_ex is_admonition_block (descendants soup) \<Longrightarrow> admonitions_soup L soup = Inr soup"
proof -
  assume plain: "\<not> list_ex is_admonition_block (descendants soup)"
  have each: "admon L n = (False, n)" if "n \<in> set soup" for n
    using that plain by (intro admon_plain) (auto simp: descendants_def list_ex_iff)
  then have "map (\<lambda>n. snd (admon L n)) soup = soup" by (simp add: map_idI)
  moreover from each have "\<not> list_ex (\<lambda>n. fst (admon L n)) soup" by (simp add: list_ex_iff)
  ultimately show ?thesis by (simp add: admonitions_soup_def)
qed

lemma admonitions_soup_clean:
  assumes "set (kinds_order L) \<subseteq> set kinds" and "admonitions_soup L soup = Inr out"
  shows "\<not> list_ex is_admonition_block (descendants out)"
proof -
  from assms(2) have out: "out = map (\<lambda>n. snd (admon L n)) soup"
    by (auto simp: admonitions_soup_def split: if_splits)
  show ?thesis
    unfolding out descendants_def using admon_clean [OF assms(1)] by (auto simp: list_ex_iff)
qed

text \<open>
  C8, as the code has it. With the five kinds of the code in whatever order, the
  admonition pass, when it completes, leaves no \<open>div\<close> of the class
  \<open>admonitionblock\<close> in the document it builds: what it writes carries the classes
  \<open>admonition\<close> and the kind. Run on that document it finds nothing to restyle and
  returns it as it is. Run on the markup it wrote, it restyles nothing either, whenever
  the parser finds no such \<open>div\<close> in that markup: it returns what the parser read,
  written out again. Admonitions in the target form are not wrapped a second time. The
  text can still change, because the parser need not read the document back string by
  string.
\<close>

theorem admonitions_not_wrapped_twice:
  assumes "set (kinds_order L) \<subseteq> set kinds"
    and "admonitions_soup L (html_parser L markup) = Inr out"
  shows "admonitions_to_material L markup = Inr (decode_contents out) \<and>
         \<not> list_ex is_admonition_block (descendants out) \<and>
         admonitions_soup L out = Inr out \<and>
         (\<not> list_ex is_admonition_block (descendants (html_parser L (decode_contents out))) \<longrightarrow>
            admonitions_to_material L (decode_contents out) =
              Inr (decode_contents (html_parser L (decode_contents out))))"
proof -
  have clean: "\<not> list_ex is_admonition_block (descendants out)"
    using assms by (rule admonitions_soup_clean)
  then have again: "admonitions_soup L out = Inr out" by (rule admonitions_soup_plain)
  have reread: "admonitions_to_material L (decode_contents out) =
      Inr (decode_contents (html_parser L (decode_contents out)))"
    if "\<not> list_ex is_admonition_block (descendants (html_parser L (decode_contents out)))"
    using admonitions_soup_plain [OF that, of L] by (simp add: admonitions_to_material_def)
  show ?thesis using assms(2) clean again reread by (simp add: admonitions_to_material_def)
qed









text \<open>
  A titled tip as the renderer lays it out, one element to a line. The pass restyles it;
  run on its own output it wraps nothing again, but the two newlines the title left
  behind come back as one; from then on the text stays.
\<close>

theorem admonitions_not_wrapped_twice_witness:
  "admonitions_to_material example_library
     (str ''<div class=\"admonitionblock tip\">\<newline><table>\<newline><tr>\<newline><td class=\"icon\">\<newline><div class=\"title\">Tip</div>\<newline></td>\<newline><td class=\"content\">\<newline><div class=\"title\">Mind</div>\<newline><div class=\"paragraph\">\<newline><p>Be careful.</p>\<newline></div>\<newline></td>\<newline></tr>\<newline></table>\<newline></div>'') =
     Inr (str ''<div class=\"admonition tip\"><p class=\"admonition-title\">Mind</p>\<newline>\<newline><div class=\"paragraph\">\<newline><p>Be careful.</p>\<newline></div>\<newline></div>'') \<and>
   admonitions_to_material example_library
     (str ''<div class=\"admonition tip\"><p class=\"admonition-title\">Mind</p>\<newline>\<newline><div class=\"paragraph\">\<newline><p>Be careful.</p>\<newline></div>\<newline></div>'') =
     Inr (str ''<div class=\"admonition tip\"><p class=\"admonition-title\">Mind</p>\<newline><div class=\"paragraph\">\<newline><p>Be careful.</p>\<newline></div>\<newline></div>'') \<and>
   admonitions_to_material example_library
     (str ''<div class=\"admonition tip\"><p class=\"admonition-title\">Mind</p>\<newline><div class=\"paragraph\">\<newline><p>Be careful.</p>\<newline></div>\<newline></div>'') =
     Inr (str ''<div class=\"admonition tip\"><p class=\"admonition-title\">Mind</p>\<newline><div class=\"paragraph\">\<newline><p>Be careful.</p>\<newline></div>\<newline></div>'') \<and>
   \<not> list_ex is_admonition_block (descendants restyled_tip) \<and>
   \<not> list_ex is_admonition_block (descendants reread_tip)"
proof -
  have k: "set (kinds_order example_library) \<subseteq> set kinds" by (simp add: example_library_def)
  have s: "admonitions_soup example_library (html_parser example_library
     (str ''<div class=\"admonitionblock tip\">\<newline><table>\<newline><tr>\<newline><td class=\"icon\">\<newline><div class=\"title\">Tip</div>\<newline></td>\<newline><td class=\"content\">\<newline><div class=\"title\">Mind</div>\<newline><div class=\"paragraph\">\<newline><p>Be careful.</p>\<newline></div>\<newline></td>\<newline></tr>\<newline></table>\<newline></div>'')) =
     Inr restyled_tip"
    by (simp add: example_library_def parse_eval admon_eval restyled_tip_def)
  have d1: "decode_contents restyled_tip =
     str ''<div class=\"admonition tip\"><p class=\"admonition-title\">Mind</p>\<newline>\<newline><div class=\"paragraph\">\<newline><p>Be careful.</p>\<newline></div>\<newline></div>''"
    by (simp add: restyled_tip_def decode_eval str_def)
  have r1: "html_parser example_library
     (str ''<div class=\"admonition tip\"><p class=\"admonition-title\">Mind</p>\<newline>\<newline><div class=\"paragraph\">\<newline><p>Be careful.</p>\<newline></div>\<newline></div>'') =
     reread_tip"
    by (simp add: example_library_def parse_eval reread_tip_def)
  have d2: "decode_contents reread_tip =
     str ''<div class=\"admonition tip\"><p class=\"admonition-title\">Mind</p>\<newline><div class=\"paragraph\">\<newline><p>Be careful.</p>\<newline></div>\<newline></div>''"
    by (simp add: reread_tip_def decode_eval str_def)
  have r2: "html_parser example_library
     (str ''<div class=\"admonition tip\"><p class=\"admonition-title\">Mind</p>\<newline><div class=\"paragraph\">\<newline><p>Be careful.</p>\<newline></div>\<newline></div>'') =
     reread_tip"
    by (simp add: example_library_def parse_eval reread_tip_def)
  have n1: "\<not> list_ex is_admonition_block (descendants restyled_tip)"
    by (simp add: restyled_tip_def descendants_def is_admonition_block_def is_tag_def has_class_def
          classes_of_def get_attr_def str_def)
  have n2: "\<not> list_ex is_admonition_block (descendants reread_tip)"
    by (simp add: reread_tip_def descendants_def is_admonition_block_def is_tag_def has_class_def
          classes_of_def get_attr_def str_def)
  have s2: "admonitions_soup example_library (html_parser example_library
     (str ''<div class=\"admonition tip\"><p class=\"admonition-title\">Mind</p>\<newline>\<newline><div class=\"paragraph\">\<newline><p>Be careful.</p>\<newline></div>\<newline></div>'')) =
     Inr reread_tip"
    unfolding r1 using n2 by (rule admonitions_soup_plain)
  have first: "admonitions_to_material example_library
     (str ''<div class=\"admonitionblock tip\">\<newline><table>\<newline><tr>\<newline><td class=\"icon\">\<newline><div class=\"title\">Tip</div>\<newline></td>\<newline><td class=\"content\">\<newline><div class=\"title\">Mind</div>\<newline><div class=\"paragraph\">\<newline><p>Be careful.</p>\<newline></div>\<newline></td>\<newline></tr>\<newline></table>\<newline></div>'') =
     Inr (str ''<div class=\"admonition tip\"><p class=\"admonition-title\">Mind</p>\<newline>\<newline><div class=\"paragraph\">\<newline><p>Be careful.</p>\<newline></div>\<newline></div>'')"
    using admonitions_not_wrapped_twice [OF k s] unfolding d1 by simp
  have second: "admonitions_to_material example_library
     (str ''<div class=\"admonition tip\"><p class=\"admonition-title\">Mind</p>\<newline>\<newline><div class=\"paragraph\">\<newline><p>Be careful.</p>\<newline></div>\<newline></div>'') =
     Inr (str ''<div class=\"admonition tip\"><p class=\"admonition-title\">Mind</p>\<newline><div class=\"paragraph\">\<newline><p>Be careful.</p>\<newline></div>\<newline></div>'')"
    using admonitions_not_wrapped_twice [OF k s] n2 unfolding d1 r1 d2 by simp
  have third: "admonitions_to_material example_library
     (str ''<div class=\"admonition tip\"><p class=\"admonition-title\">Mind</p>\<newline><div class=\"paragraph\">\<newline><p>Be careful.</p>\<newline></div>\<newline></div>'') =
     Inr (str ''<div class=\"admonition tip\"><p class=\"admonition-title\">Mind</p>\<newline><div class=\"paragraph\">\<newline><p>Be careful.</p>\<newline></div>\<newline></div>'')"
    using admonitions_not_wrapped_twice [OF k s2] n2 unfolding d2 r2 by simp
  from first second third n1 n2 show ?thesis by (intro conjI)
qed

text \<open>
  C8 as it is stated fails: the three passes together are not idempotent. Of several
  markers at the end of a listing line the pattern deletes the last one only, so every
  further run changes \<open>f(1)(2)(3)\<close> again.
\<close>

theorem normalize_not_idempotent_counterexample:
  "normalize example_library (str ''<div class=\"listingblock\"><pre>f(1)(2)(3)</pre></div>'') =
     Inr (str ''<div class=\"listingblock\"><pre>f(1)(2)</pre></div>'') \<and>
   normalize example_library (str ''<div class=\"listingblock\"><pre>f(1)(2)</pre></div>'') =
     Inr (str ''<div class=\"listingblock\"><pre>f(1)</pre></div>'') \<and>
   normalize example_library (str ''<div class=\"listingblock\"><pre>f(1)</pre></div>'') =
     Inr (str ''<div class=\"listingblock\"><pre>f</pre></div>'')"
  by (simp add: normalize_def example_library_def parse_eval admon_eval colist_eval strip_eval)

section \<open>Properties of the page hook\<close>







lemma heading_ids_Nil [simp]: "heading_ids [] = []"
  by (simp add: heading_ids_def find_all_def descendants_def)




lemma heading_ids_string [simp]: "heading_ids [Text s] = []" "heading_ids [Opaque s] = []"
  by (simp_all add: heading_ids_def find_all_def descendants_def)
































end
